theory Spec2Isabelle
  imports Complex_Main
begin

section \<open>Python values and built-ins\<close>

text \<open>
  The scoring and qualification engines are Python. Numbers of type \<open>float\<close> are
  modelled as reals (no rounding, no NaN), \<open>int\<close> as unbounded integers, \<open>str\<close> as
  character lists with ASCII case folding. Exceptions are values of type \<open>error\<close>.
\<close>

datatype error = TypeError | AttributeError | ValueError | ValidationError

text \<open>
  A \<open>datetime\<close> is naive (no \<open>tzinfo\<close>; the integer counts the microseconds of its
  wall-clock reading) or timezone-aware (the integer counts the microseconds of its
  instant in UTC). Pydantic accepts both for a \<open>datetime\<close> field: it parses
  \<open>2024-01-01T00:00:00\<close> to a naive value and \<open>2024-01-01T00:00:00Z\<close> to an aware one.
\<close>

datatype pydatetime = Naive int | Aware int

text \<open>
  Values that can occur behind \<open>Any\<close>: in a rule condition and as the result of the
  dotted attribute lookup on a lead. \<open>VObj c attrs\<close> is an instance of the pydantic class
  \<open>c\<close> with its declared data attributes in declaration order. String-valued enums
  (\<open>class X(str, Enum)\<close>) are their string values.
\<close>

datatype pyval =
    VNone
  | VBool bool
  | VInt int
  | VFloat real
  | VStr string
  | VDatetime pydatetime
  | VList "pyval list"
  | VDict "(string \<times> pyval) list"
  | VObj string "(string \<times> pyval) list"

definition lower_char :: "char \<Rightarrow> char" where
  "lower_char c =
     (case map_of (zip ''ABCDEFGHIJKLMNOPQRSTUVWXYZ'' ''abcdefghijklmnopqrstuvwxyz'') c of
        None \<Rightarrow> c
      | Some d \<Rightarrow> d)"

definition lower :: "string \<Rightarrow> string" where
  "lower s = map lower_char s"

fun startswith :: "string \<Rightarrow> string \<Rightarrow> bool" where
  "startswith s [] = True"
| "startswith [] (p # ps) = False"
| "startswith (c # cs) (p # ps) = (c = p \<and> startswith cs ps)"

text \<open>\<open>contains_str p s\<close> is Python's \<open>p in s\<close> on strings.\<close>

fun contains_str :: "string \<Rightarrow> string \<Rightarrow> bool" where
  "contains_str p [] = (p = [])"
| "contains_str p (c # cs) = (startswith (c # cs) p \<or> contains_str p cs)"

text \<open>\<open>any_in ks s\<close> is \<open>any(k in s for k in ks)\<close>.\<close>

definition any_in :: "string list \<Rightarrow> string \<Rightarrow> bool" where
  "any_in ks s = list_ex (\<lambda>k. contains_str k s) ks"

text \<open>\<open>split_on d s\<close> is \<open>s.split(d)\<close> for a one-character separator.\<close>

fun split_on :: "char \<Rightarrow> string \<Rightarrow> string list" where
  "split_on d [] = [[]]"
| "split_on d (c # cs) =
     (if c = d then [] # split_on d cs
      else (case split_on d cs of
              [] \<Rightarrow> [[c]]
            | p # ps \<Rightarrow> (c # p) # ps))"

fun join :: "string \<Rightarrow> string list \<Rightarrow> string" where
  "join sep [] = []"
| "join sep [x] = x"
| "join sep (x # y # ys) = x @ sep @ join sep (y # ys)"

definition replace_char :: "char \<Rightarrow> char \<Rightarrow> string \<Rightarrow> string" where
  "replace_char a b s = map (\<lambda>c. if c = a then b else c) s"

text \<open>Truthiness, as tested by \<open>if x:\<close> and \<open>x or y\<close>.\<close>

fun truthy :: "pyval \<Rightarrow> bool" where
  "truthy VNone = False"
| "truthy (VBool b) = b"
| "truthy (VInt i) = (i \<noteq> 0)"
| "truthy (VFloat x) = (x \<noteq> 0)"
| "truthy (VStr s) = (s \<noteq> [])"
| "truthy (VDatetime t) = True"
| "truthy (VList xs) = (xs \<noteq> [])"
| "truthy (VDict d) = (d \<noteq> [])"
| "truthy (VObj c d) = True"

definition truthy_int :: "int option \<Rightarrow> bool" where
  "truthy_int x = (case x of None \<Rightarrow> False | Some i \<Rightarrow> i \<noteq> 0)"

definition truthy_float :: "real option \<Rightarrow> bool" where
  "truthy_float x = (case x of None \<Rightarrow> False | Some r \<Rightarrow> r \<noteq> 0)"

definition truthy_str :: "string option \<Rightarrow> bool" where
  "truthy_str x = (case x of None \<Rightarrow> False | Some s \<Rightarrow> s \<noteq> [])"

text \<open>\<open>isinstance(x, (int, float))\<close> with the numeric value; \<open>bool\<close> is a subclass of \<open>int\<close>.\<close>

fun num_of :: "pyval \<Rightarrow> real option" where
  "num_of (VBool b) = Some (if b then 1 else 0)"
| "num_of (VInt i) = Some (of_int i)"
| "num_of (VFloat x) = Some x"
| "num_of v = None"

text \<open>
  Python's \<open>==\<close>: numbers compare by value across \<open>bool\<close>, \<open>int\<close> and \<open>float\<close>, lists
  element by element, dictionaries and model instances by their items regardless of order.
\<close>

fun py_eq :: "pyval \<Rightarrow> pyval \<Rightarrow> bool"
  and py_eq_list :: "pyval list \<Rightarrow> pyval list \<Rightarrow> bool"
  and py_eq_items :: "(string \<times> pyval) list \<Rightarrow> (string \<times> pyval) list \<Rightarrow> bool" where
  "py_eq (VList xs) b = (case b of VList ys \<Rightarrow> py_eq_list xs ys | _ \<Rightarrow> False)"
| "py_eq (VDict d) b =
     (case b of VDict e \<Rightarrow> length d = length e \<and> py_eq_items d e | _ \<Rightarrow> False)"
| "py_eq (VObj c d) b =
     (case b of VObj c' e \<Rightarrow> c = c' \<and> length d = length e \<and> py_eq_items d e | _ \<Rightarrow> False)"
| "py_eq a b =
     (case (num_of a, num_of b) of
        (Some x, Some y) \<Rightarrow> x = y
      | (None, None) \<Rightarrow> a = b
      | _ \<Rightarrow> False)"
| "py_eq_list [] ys = (ys = [])"
| "py_eq_list (x # xs) ys =
     (case ys of [] \<Rightarrow> False | y # ys' \<Rightarrow> py_eq x y \<and> py_eq_list xs ys')"
| "py_eq_items [] e = True"
| "py_eq_items ((k, v) # r) e =
     (case map_of e k of None \<Rightarrow> False | Some w \<Rightarrow> py_eq v w \<and> py_eq_items r e)"

text \<open>Lists, dictionaries and pydantic model instances are unhashable.\<close>

fun hashable :: "pyval \<Rightarrow> bool" where
  "hashable (VList xs) = False"
| "hashable (VDict d) = False"
| "hashable (VObj c d) = False"
| "hashable v = True"

text \<open>\<open>py_in x c\<close> is \<open>x in c\<close>; it raises when \<open>c\<close> is not a container.\<close>

fun py_in :: "pyval \<Rightarrow> pyval \<Rightarrow> error + bool" where
  "py_in x (VList ys) = Inr (list_ex (py_eq x) ys)"
| "py_in x (VStr s) = (case x of VStr p \<Rightarrow> Inr (contains_str p s) | _ \<Rightarrow> Inl TypeError)"
| "py_in x (VDict d) =
     (if hashable x then Inr (list_ex (\<lambda>kv. py_eq x (VStr (fst kv))) d) else Inl TypeError)"
| "py_in x c = Inl TypeError"

text \<open>\<open>py_set c\<close> is \<open>set(c)\<close>, kept as the list of elements.\<close>

fun py_set :: "pyval \<Rightarrow> error + pyval list" where
  "py_set (VList ys) = (if list_all hashable ys then Inr ys else Inl TypeError)"
| "py_set (VStr s) = Inr (map (\<lambda>c. VStr [c]) s)"
| "py_set (VDict d) = Inr (map (\<lambda>kv. VStr (fst kv)) d)"
| "py_set c = Inl TypeError"

text \<open>Ordering comparison of an int or float on the left with any value on the right.\<close>

definition num_cmp :: "(real \<Rightarrow> real \<Rightarrow> bool) \<Rightarrow> real \<Rightarrow> pyval \<Rightarrow> error + bool" where
  "num_cmp rel x v = (case num_of v of None \<Rightarrow> Inl TypeError | Some y \<Rightarrow> Inr (rel x y))"

text \<open>
  \<open>hasattr(o, n)\<close> and \<open>getattr(o, n)\<close>: the result is \<open>None\<close> when \<open>hasattr\<close> is
  false. The attributes of an object are the data fields its pydantic class declares; the
  methods and special attributes that Python objects inherit from their classes are not
  part of this object model.
\<close>

fun py_getattr :: "pyval \<Rightarrow> string \<Rightarrow> pyval option" where
  "py_getattr (VObj c attrs) n = map_of attrs n"
| "py_getattr v n = None"

definition day :: int where
  "day = 86400000000"

text \<open>Whether a datetime carries a \<open>tzinfo\<close>, and the timestamps scoring can subtract.\<close>

fun aware :: "pydatetime \<Rightarrow> bool" where
  "aware (Naive t) = False"
| "aware (Aware t) = True"

definition naive_or_absent :: "pydatetime option \<Rightarrow> bool" where
  "naive_or_absent d = (case d of None \<Rightarrow> True | Some x \<Rightarrow> \<not> aware x)"

text \<open>
  \<open>days_between n d\<close> is \<open>(datetime.now() - d).days\<close>, where \<open>n\<close> is the reading of
  \<open>datetime.now()\<close>, a naive datetime. The difference of two naive datetimes has
  \<open>.days\<close> equal to the floor of the difference divided by one day. Subtracting an
  aware datetime from a naive one raises \<open>TypeError\<close>.
\<close>

definition days_between :: "int \<Rightarrow> pydatetime \<Rightarrow> error + int" where
  "days_between n d =
     (case d of
        Naive t \<Rightarrow> Inr ((n - t) div day)
      | Aware t \<Rightarrow> Inl TypeError)"

text \<open>
  What a call takes from the Python runtime: the wall clock (one reading per call, with
  the month of that reading), and the text renderings \<open>format(x, spec)\<close> of numbers and
  \<open>str(x)\<close> of a dictionary or a list of strings.
\<close>

record runtime =
  now :: int
  now_month :: nat
  format_int :: "string \<Rightarrow> int \<Rightarrow> string"
  format_float :: "string \<Rightarrow> real \<Rightarrow> string"
  str_dict :: "(string \<times> string) list \<Rightarrow> string"
  str_list :: "string list \<Rightarrow> string"

section \<open>Data model (models/lead.py, models/scoring.py)\<close>

datatype QualificationStatus = HOT | WARM | COLD | UNQUALIFIED

fun status_value :: "QualificationStatus \<Rightarrow> string" where
  "status_value HOT = ''Hot''"
| "status_value WARM = ''Warm''"
| "status_value COLD = ''Cold''"
| "status_value UNQUALIFIED = ''Unqualified''"

text \<open>\<open>QualificationStatus(s)\<close>: the member with that value, or \<open>ValueError\<close>.\<close>

definition QualificationStatus_of :: "string \<Rightarrow> error + QualificationStatus" where
  "QualificationStatus_of s =
     (if s = ''Hot'' then Inr HOT
      else if s = ''Warm'' then Inr WARM
      else if s = ''Cold'' then Inr COLD
      else if s = ''Unqualified'' then Inr UNQUALIFIED
      else Inl ValueError)"

datatype RevenueRange = STARTUP | SMALL | MEDIUM | LARGE | ENTERPRISE

fun revenue_value :: "RevenueRange \<Rightarrow> string" where
  "revenue_value STARTUP = ''0-1M''"
| "revenue_value SMALL = ''1M-10M''"
| "revenue_value MEDIUM = ''10M-100M''"
| "revenue_value LARGE = ''100M-1B''"
| "revenue_value ENTERPRISE = ''1B+''"

record ContactInfo =
  contact_name :: "string option"
  title :: "string option"
  email :: "string option"
  linkedin_url :: "string option"
  phone :: "string option"

record CompanyMetrics =
  employee_count :: "int option"
  revenue_range :: "RevenueRange option"
  growth_rate :: "real option"
  funding_amount :: "real option"
  funding_stage :: "string option"
  last_funding_date :: "pydatetime option"

record TechnologyStack =
  technologies :: "string list"
  marketing_tools :: "string list"
  sales_tools :: "string list"
  analytics_tools :: "string list"

record BuyingSignals =
  job_postings :: "string list"
  recent_hiring :: "int option"
  budget_indicators :: "string list"
  decision_maker_changes :: bool
  expansion_signals :: "string list"

record Lead =
  lead_id :: "string option"
  company_name :: string
  domain :: string
  industry :: "string option"
  sub_industry :: "string option"
  contacts :: "ContactInfo list"
  metrics :: CompanyMetrics
  tech_stack :: TechnologyStack
  buying_signals :: BuyingSignals
  lead_score :: "real option"
  lead_qualification_status :: "string option"
  score_breakdown :: "(string \<times> real) list"
  data_quality_score :: "real option"
  completeness_percentage :: "real option"
  last_enriched :: "pydatetime option"
  data_sources :: "string list"
  competitor_analysis :: "(string \<times> pyval) list"
  outreach_recommendations :: "string list"
  lead_next_actions :: "string list"
  headquarters :: "string option"
  locations :: "string list"
  website_traffic_rank :: "int option"
  social_media_presence :: "(string \<times> string) list"
  created_at :: pydatetime
  updated_at :: pydatetime

text \<open>The constraints pydantic checks when a \<open>Lead\<close> is constructed (\<open>Field(ge=0, le=100)\<close>).\<close>

definition in_range :: "real \<Rightarrow> real \<Rightarrow> real option \<Rightarrow> bool" where
  "in_range lo hi x = (case x of None \<Rightarrow> True | Some v \<Rightarrow> lo \<le> v \<and> v \<le> hi)"

definition Lead_valid :: "Lead \<Rightarrow> bool" where
  "Lead_valid l =
     (in_range 0 100 (growth_rate (metrics l)) \<and>
      in_range 0 100 (lead_score l) \<and>
      in_range 0 100 (data_quality_score l) \<and>
      in_range 0 100 (completeness_percentage l))"

datatype ScoreCategory =
    COMPANY_FIT
  | GROWTH_INDICATORS
  | TECHNOLOGY_FIT
  | ENGAGEMENT_SIGNALS
  | TIMING_SIGNALS
  | BUYING_SIGNALS

fun category_value :: "ScoreCategory \<Rightarrow> string" where
  "category_value COMPANY_FIT = ''company_fit''"
| "category_value GROWTH_INDICATORS = ''growth_indicators''"
| "category_value TECHNOLOGY_FIT = ''technology_fit''"
| "category_value ENGAGEMENT_SIGNALS = ''engagement_signals''"
| "category_value TIMING_SIGNALS = ''timing_signals''"
| "category_value BUYING_SIGNALS = ''buying_signals''"

record ScoringWeights =
  w_company_fit :: real
  w_growth_indicators :: real
  w_technology_fit :: real
  w_engagement_signals :: real
  w_timing_signals :: real
  w_buying_signals :: real

definition ScoringWeights_default :: ScoringWeights where
  "ScoringWeights_default =
     \<lparr>w_company_fit = 0.25, w_growth_indicators = 0.20, w_technology_fit = 0.15,
      w_engagement_signals = 0.15, w_timing_signals = 0.15, w_buying_signals = 0.10\<rparr>"

text \<open>The field constraints of \<open>ScoringWeights\<close>: every weight has \<open>ge=0, le=1\<close>.\<close>

definition unit_interval :: "real \<Rightarrow> bool" where
  "unit_interval x = (0 \<le> x \<and> x \<le> 1)"

definition ScoringWeights_fields_ok :: "ScoringWeights \<Rightarrow> bool" where
  "ScoringWeights_fields_ok w =
     (unit_interval (w_company_fit w) \<and> unit_interval (w_growth_indicators w) \<and>
      unit_interval (w_technology_fit w) \<and> unit_interval (w_engagement_signals w) \<and>
      unit_interval (w_timing_signals w) \<and> unit_interval (w_buying_signals w))"

definition validate_weights :: "ScoringWeights \<Rightarrow> error + unit" where
  "validate_weights w =
     (let total = sum_list [w_company_fit w, w_growth_indicators w, w_technology_fit w,
                            w_engagement_signals w, w_timing_signals w, w_buying_signals w]
      in if \<bar>total - 1.0\<bar> > 0.01 then Inl ValueError else Inr ())"

record IdealCustomerProfile =
  target_industries :: "string list"
  company_size_min :: "int option"
  company_size_max :: "int option"
  revenue_min :: "real option"
  revenue_max :: "real option"
  target_technologies :: "string list"
  target_roles :: "string list"
  geographic_regions :: "string list"
  funding_stages :: "string list"
  excluded_industries :: "string list"
  excluded_technologies :: "string list"

definition IdealCustomerProfile_default :: IdealCustomerProfile where
  "IdealCustomerProfile_default =
     \<lparr>target_industries = [], company_size_min = None, company_size_max = None,
      revenue_min = None, revenue_max = None, target_technologies = [], target_roles = [],
      geographic_regions = [], funding_stages = [], excluded_industries = [],
      excluded_technologies = []\<rparr>"

record ScoringRule =
  rule_name :: string
  rule_category :: ScoreCategory
  condition :: "(string \<times> pyval) list"
  score_impact :: real
  weight :: real
  description :: "string option"

record QualificationThresholds =
  hot_threshold :: real
  warm_threshold :: real
  cold_threshold :: real
  min_data_quality :: real

definition QualificationThresholds_default :: QualificationThresholds where
  "QualificationThresholds_default =
     \<lparr>hot_threshold = 80, warm_threshold = 60, cold_threshold = 40, min_data_quality = 50\<rparr>"

record ScoringModel =
  model_name :: string
  version :: string
  weights :: ScoringWeights
  icp :: IdealCustomerProfile
  thresholds :: QualificationThresholds
  global_rules :: "ScoringRule list"
  max_score :: real
  normalize_scores :: bool
  apply_data_quality_penalty :: bool

definition ScoringModel_default :: ScoringModel where
  "ScoringModel_default =
     \<lparr>model_name = ''Default Lead Scoring Model'', version = ''1.0'',
      weights = ScoringWeights_default, icp = IdealCustomerProfile_default,
      thresholds = QualificationThresholds_default, global_rules = [],
      max_score = 100, normalize_scores = True, apply_data_quality_penalty = True\<rparr>"

definition get_default_rules :: "ScoringRule list" where
  "get_default_rules =
     [\<lparr>rule_name = ''Target Industry Match'', rule_category = COMPANY_FIT,
       condition = [(''field'', VStr ''industry''), (''operator'', VStr ''in''),
                    (''value'', VStr ''target_industries'')],
       score_impact = 20, weight = 1.0,
       description = Some ''Company is in target industry''\<rparr>,
      \<lparr>rule_name = ''Ideal Company Size'', rule_category = COMPANY_FIT,
       condition = [(''field'', VStr ''employee_count''), (''operator'', VStr ''between''),
                    (''min'', VStr ''size_min''), (''max'', VStr ''size_max'')],
       score_impact = 15, weight = 1.0,
       description = Some ''Company size matches ICP''\<rparr>,
      \<lparr>rule_name = ''Recent Funding'', rule_category = GROWTH_INDICATORS,
       condition = [(''field'', VStr ''last_funding_date''),
                    (''operator'', VStr ''within_days''), (''value'', VInt 180)],
       score_impact = 15, weight = 1.0,
       description = Some ''Recently received funding''\<rparr>,
      \<lparr>rule_name = ''High Hiring Velocity'', rule_category = GROWTH_INDICATORS,
       condition = [(''field'', VStr ''hiring_velocity''), (''operator'', VStr ''gt''),
                    (''value'', VInt 5)],
       score_impact = 10, weight = 1.0,
       description = Some ''Actively hiring (growth signal)''\<rparr>,
      \<lparr>rule_name = ''Technology Stack Match'', rule_category = TECHNOLOGY_FIT,
       condition = [(''field'', VStr ''tech_stack''), (''operator'', VStr ''intersects''),
                    (''value'', VStr ''target_technologies'')],
       score_impact = 12, weight = 1.0,
       description = Some ''Uses complementary technologies''\<rparr>,
      \<lparr>rule_name = ''Decision Maker Job Postings'', rule_category = BUYING_SIGNALS,
       condition = [(''field'', VStr ''job_postings''),
                    (''operator'', VStr ''contains_roles''), (''value'', VStr ''target_roles'')],
       score_impact = 25, weight = 1.0,
       description = Some ''Hiring for relevant decision-making roles''\<rparr>,
      \<lparr>rule_name = ''Competitor Technology'', rule_category = TIMING_SIGNALS,
       condition = [(''field'', VStr ''tech_stack''),
                    (''operator'', VStr ''contains_competitor''), (''value'', VBool True)],
       score_impact = 8, weight = 1.0,
       description = Some ''Currently uses competitor solution''\<rparr>,
      \<lparr>rule_name = ''Website Traffic Growth'', rule_category = ENGAGEMENT_SIGNALS,
       condition = [(''field'', VStr ''website_traffic_trend''), (''operator'', VStr ''eq''),
                    (''value'', VStr ''up'')],
       score_impact = 5, weight = 1.0,
       description = Some ''Growing web presence''\<rparr>]"

record Factor =
  factor :: string
  impact :: real
  fvalue :: string

record ScoreExplanation =
  category :: ScoreCategory
  score :: real
  max_score_of :: real
  factors :: "Factor list"
  recommendations :: "string list"

record LeadScore =
  total_score :: real
  category_scores :: "(ScoreCategory \<times> real) list"
  explanations :: "ScoreExplanation list"
  qualification_status :: string
  confidence :: real
  data_quality_impact :: real
  applied_rules :: "string list"
  improvement_suggestions :: "string list"
  next_actions :: "string list"
  outreach_timing :: "string option"
  outreach_approach :: "string option"

text \<open>Constructing a \<open>LeadScore\<close> validates \<open>total_score\<close> (0..100) and \<open>confidence\<close> (0..1).\<close>

definition LeadScore_validate :: "LeadScore \<Rightarrow> error + LeadScore" where
  "LeadScore_validate r =
     (if 0 \<le> total_score r \<and> total_score r \<le> 100 \<and> 0 \<le> confidence r \<and> confidence r \<le> 1
      then Inr r else Inl ValidationError)"

section \<open>Scoring engine (services/scorer.py)\<close>

record LeadScoringEngine =
  model :: ScoringModel
  industry_multipliers :: "(string \<times> real) list"
  target_tech_stack :: "string list"
  competitor_technologies :: "string list"

text \<open>
  \<open>LeadScoringEngine.__init__\<close>: the given model or the default one, the default rules
  when the model has none, and the three fixed tables. Nothing else happens here.
\<close>

definition LeadScoringEngine_init :: "ScoringModel option \<Rightarrow> LeadScoringEngine" where
  "LeadScoringEngine_init scoring_model =
     (let m = (case scoring_model of None \<Rightarrow> ScoringModel_default | Some m \<Rightarrow> m);
          m = (if global_rules m = [] then m\<lparr>global_rules := get_default_rules\<rparr> else m)
      in \<lparr>model = m,
          industry_multipliers =
            [(''technology'', 1.2), (''software'', 1.2), (''saas'', 1.3), (''fintech'', 1.1),
             (''healthcare'', 1.0), (''e-commerce'', 1.1), (''marketing'', 0.9),
             (''consulting'', 0.8), (''manufacturing'', 0.7), (''retail'', 0.8)],
          target_tech_stack =
            [''python'', ''react'', ''node.js'', ''aws'', ''postgresql'',
             ''redis'', ''docker'', ''kubernetes'', ''api'', ''microservices''],
          competitor_technologies =
            [''salesforce'', ''hubspot'', ''marketo'', ''pardot'',
             ''mailchimp'', ''constant-contact'', ''pipedrive'']\<rparr>)"

text \<open>
  Inside a category scorer the local variables \<open>score\<close> and \<open>factors\<close> are one pair;
  \<open>add\<close> is \<open>score += pts; factors.append({...})\<close>.
\<close>

type_synonym acc = "real \<times> Factor list"

definition add :: "real \<Rightarrow> string \<Rightarrow> string \<Rightarrow> acc \<Rightarrow> acc" where
  "add pts nm val st = (fst st + pts, snd st @ [\<lparr>factor = nm, impact = pts, fvalue = val\<rparr>])"

subsection \<open>Company fit\<close>

definition default_company_size :: "int \<Rightarrow> real" where
  "default_company_size n =
     (if 50 \<le> n \<and> n \<le> 500 then 8
      else if 20 \<le> n \<and> n \<le> 1000 then 6
      else if 10 \<le> n \<and> n \<le> 2000 then 4
      else 2)"

definition score_company_size :: "LeadScoringEngine \<Rightarrow> int \<Rightarrow> real" where
  "score_company_size eng n =
     (let p = icp (model eng) in
      if truthy_int (company_size_min p) \<and> truthy_int (company_size_max p) then
        (case (company_size_min p, company_size_max p) of
           (Some lo, Some hi) \<Rightarrow>
             if lo \<le> n \<and> n \<le> hi then 8
             else if n < lo then 8 * (of_int n / of_int lo)
             else 6
         | _ \<Rightarrow> default_company_size n)
      else default_company_size n)"

definition score_geographic_fit :: "string \<Rightarrow> real" where
  "score_geographic_fit location =
     (let location_lower = lower location in
      if any_in [''san francisco'', ''new york'', ''seattle'', ''boston'', ''austin'']
           location_lower then 4
      else if any_in [''usa'', ''us'', ''united states'', ''canada''] location_lower then 3
      else if any_in [''uk'', ''australia'', ''ireland'', ''new zealand''] location_lower then 2
      else 1)"

definition company_industry :: "LeadScoringEngine \<Rightarrow> Lead \<Rightarrow> acc \<Rightarrow> acc" where
  "company_industry eng lead st =
     (case industry lead of
        None \<Rightarrow> st
      | Some ind \<Rightarrow>
          if ind = [] then st
          else
            (let industry_lower = lower ind in
             if any_in (target_industries (icp (model eng))) industry_lower
             then add 8 ''Target industry match'' ind st
             else (case map_of (industry_multipliers eng) industry_lower of
                     Some mult \<Rightarrow> add (6 * mult) ''Industry compatibility'' ind st
                   | None \<Rightarrow> add 3 ''Industry identified'' ind st)))"

definition company_size :: "LeadScoringEngine \<Rightarrow> runtime \<Rightarrow> Lead \<Rightarrow> acc \<Rightarrow> acc" where
  "company_size eng rt lead st =
     (case employee_count (metrics lead) of
        None \<Rightarrow> st
      | Some n \<Rightarrow>
          if n = 0 then st
          else add (score_company_size eng n) ''Company size fit''
                 (format_int rt [] n @ '' employees'') st)"

definition company_revenue :: "Lead \<Rightarrow> acc \<Rightarrow> acc" where
  "company_revenue lead st =
     (case revenue_range (metrics lead) of
        None \<Rightarrow> st
      | Some r \<Rightarrow> add 5 ''Revenue information available'' (revenue_value r) st)"

definition company_geo :: "Lead \<Rightarrow> acc \<Rightarrow> acc" where
  "company_geo lead st =
     (case headquarters lead of
        None \<Rightarrow> st
      | Some hq \<Rightarrow>
          if hq = [] then st
          else add (score_geographic_fit hq) ''Geographic location'' hq st)"

definition get_company_fit_recommendations :: "Lead \<Rightarrow> real \<Rightarrow> string list" where
  "get_company_fit_recommendations lead sc =
     (if sc < 10 then [''Verify company is in target market''] else []) @
     (if \<not> truthy_int (employee_count (metrics lead)) then [''Determine company size''] else []) @
     (if \<not> truthy_str (headquarters lead) then [''Identify company location''] else [])"

definition score_company_fit ::
  "LeadScoringEngine \<Rightarrow> runtime \<Rightarrow> Lead \<Rightarrow> ScoreExplanation list \<Rightarrow> real \<times> ScoreExplanation list" where
  "score_company_fit eng rt lead expls =
     (let st = (0, []);
          st = company_industry eng lead st;
          st = company_size eng rt lead st;
          st = company_revenue lead st;
          st = company_geo lead st
      in (fst st,
          expls @
            [\<lparr>category = COMPANY_FIT, score = fst st, max_score_of = 25, factors = snd st,
              recommendations = get_company_fit_recommendations lead (fst st)\<rparr>]))"

subsection \<open>Growth indicators\<close>

definition growth_funding :: "runtime \<Rightarrow> Lead \<Rightarrow> acc \<Rightarrow> error + acc" where
  "growth_funding rt lead st =
     (case last_funding_date (metrics lead) of
        None \<Rightarrow> Inr st
      | Some d \<Rightarrow>
          (case days_between (now rt) d of
             Inl e \<Rightarrow> Inl e
           | Inr days_since_funding \<Rightarrow>
               Inr (if days_since_funding \<le> 90
                    then add 6 ''Recent funding (90 days)'' ''Recent'' st
                    else if days_since_funding \<le> 180
                    then add 4 ''Recent funding (6 months)'' ''Recent'' st
                    else if days_since_funding \<le> 365
                    then add 2 ''Funding within year'' ''Past year'' st
                    else (fst st + 0, snd st))))"

definition growth_hiring :: "runtime \<Rightarrow> Lead \<Rightarrow> acc \<Rightarrow> acc" where
  "growth_hiring rt lead st =
     (case recent_hiring (buying_signals lead) of
        None \<Rightarrow> st
      | Some hiring_rate \<Rightarrow>
          if hiring_rate = 0 then st
          else if hiring_rate \<ge> 10
          then add 6 ''High hiring velocity'' (format_int rt [] hiring_rate @ '' recent hires'') st
          else if hiring_rate \<ge> 5
          then add 4 ''Moderate hiring'' (format_int rt [] hiring_rate @ '' recent hires'') st
          else if hiring_rate \<ge> 2
          then add 2 ''Some hiring activity'' (format_int rt [] hiring_rate @ '' recent hires'') st
          else (fst st + 0, snd st))"

definition growth_job_postings :: "runtime \<Rightarrow> Lead \<Rightarrow> acc \<Rightarrow> acc" where
  "growth_job_postings rt lead st =
     (if job_postings (buying_signals lead) \<noteq> [] then
        (let job_count = int (length (job_postings (buying_signals lead)));
             job_points = min 4 job_count
         in add (of_int job_points) ''Active job postings''
              (format_int rt [] job_count @ '' open positions'') st)
      else st)"

definition growth_rate_points :: "runtime \<Rightarrow> Lead \<Rightarrow> acc \<Rightarrow> acc" where
  "growth_rate_points rt lead st =
     (case growth_rate (metrics lead) of
        None \<Rightarrow> st
      | Some g \<Rightarrow>
          if g = 0 then st
          else
            (let growth_points = (if g \<ge> 50 then 4 else if g \<ge> 25 then 3
                                  else if g \<ge> 10 then 2 else 1)
             in add growth_points ''Company growth rate'' (format_float rt [] g @ ''%'') st))"

definition get_growth_recommendations :: "Lead \<Rightarrow> real \<Rightarrow> string list" where
  "get_growth_recommendations lead sc =
     (if sc < 8 then [''Research recent funding or growth news''] else []) @
     (if job_postings (buying_signals lead) = [] then [''Check for active job postings''] else [])"

definition score_growth_indicators ::
  "runtime \<Rightarrow> Lead \<Rightarrow> ScoreExplanation list \<Rightarrow> error + real \<times> ScoreExplanation list" where
  "score_growth_indicators rt lead expls =
     (case growth_funding rt lead (0, []) of
        Inl e \<Rightarrow> Inl e
      | Inr st \<Rightarrow>
          (let st = growth_hiring rt lead st;
               st = growth_job_postings rt lead st;
               st = growth_rate_points rt lead st
           in Inr (fst st,
                   expls @
                     [\<lparr>category = GROWTH_INDICATORS, score = fst st, max_score_of = 20,
                       factors = snd st,
                       recommendations = get_growth_recommendations lead (fst st)\<rparr>])))"

subsection \<open>Technology fit\<close>

definition get_technology_recommendations :: "Lead \<Rightarrow> real \<Rightarrow> string list" where
  "get_technology_recommendations lead sc =
     (if sc < 5 then [''Identify current technology stack''] else []) @
     (if technologies (tech_stack lead) = [] then [''Research tools and platforms used''] else [])"

definition tech_compatible :: "LeadScoringEngine \<Rightarrow> string list \<Rightarrow> acc \<Rightarrow> acc" where
  "tech_compatible eng all_technologies st =
     (let compatible_techs =
            filter (\<lambda>tech. List.member (target_tech_stack eng) (lower tech)) all_technologies
      in if compatible_techs \<noteq> []
         then add (of_int (min 8 (int (length compatible_techs) * 2))) ''Compatible technologies''
                (join '', '' compatible_techs) st
         else st)"

definition tech_competitor :: "LeadScoringEngine \<Rightarrow> string list \<Rightarrow> acc \<Rightarrow> acc" where
  "tech_competitor eng all_technologies st =
     (let competitor_techs =
            filter (\<lambda>tech. List.member (competitor_technologies eng) (lower tech)) all_technologies
      in if competitor_techs \<noteq> []
         then add (of_int (min 5 (int (length competitor_techs) * 3))) ''Uses competitor tools''
                (join '', '' competitor_techs) st
         else st)"

definition tech_modern :: "string list \<Rightarrow> acc \<Rightarrow> acc" where
  "tech_modern all_technologies st =
     (let modern_indicators =
            [''api'', ''cloud'', ''microservices'', ''docker'', ''kubernetes'', ''saas''];
          modern_techs = filter (\<lambda>tech. any_in modern_indicators (lower tech)) all_technologies
      in if modern_techs \<noteq> []
         then add 2 ''Modern technology adoption'' (join '', '' modern_techs) st
         else st)"

definition score_technology_fit ::
  "LeadScoringEngine \<Rightarrow> Lead \<Rightarrow> ScoreExplanation list \<Rightarrow> real \<times> ScoreExplanation list" where
  "score_technology_fit eng lead expls =
     (let all_technologies =
            technologies (tech_stack lead) @ marketing_tools (tech_stack lead) @
            sales_tools (tech_stack lead) @ analytics_tools (tech_stack lead)
      in if all_technologies = [] then
           (0, expls @
                 [\<lparr>category = TECHNOLOGY_FIT, score = 0, max_score_of = 15,
                   factors = [\<lparr>factor = ''No technology data'', impact = 0, fvalue = ''Unknown''\<rparr>],
                   recommendations = [''Gather technology stack information'']\<rparr>])
         else
           (let st = (0, []);
                st = tech_compatible eng all_technologies st;
                st = tech_competitor eng all_technologies st;
                st = tech_modern all_technologies st
            in (fst st,
                expls @
                  [\<lparr>category = TECHNOLOGY_FIT, score = fst st, max_score_of = 15,
                    factors = snd st,
                    recommendations = get_technology_recommendations lead (fst st)\<rparr>])))"

subsection \<open>Engagement signals\<close>

definition engagement_traffic :: "runtime \<Rightarrow> Lead \<Rightarrow> acc \<Rightarrow> acc" where
  "engagement_traffic rt lead st =
     (case website_traffic_rank lead of
        None \<Rightarrow> st
      | Some rank \<Rightarrow>
          if rank = 0 then st
          else
            (let traffic_points = (if rank \<le> 100000 then 5 else if rank \<le> 500000 then 3
                                   else if rank \<le> 1000000 then 2 else 1)
             in add traffic_points ''Website traffic rank'' (''#'' @ format_int rt '','' rank) st))"

definition engagement_social :: "runtime \<Rightarrow> Lead \<Rightarrow> acc \<Rightarrow> acc" where
  "engagement_social rt lead st =
     (if social_media_presence lead \<noteq> [] then
        (let n = int (length (social_media_presence lead)) in
         add (of_int (min 5 (n * 2))) ''Social media presence''
           (format_int rt [] n @ '' platforms'') st)
      else st)"

definition engagement_content :: "runtime \<Rightarrow> Lead \<Rightarrow> acc \<Rightarrow> acc" where
  "engagement_content rt lead st =
     (let thought_leadership_indicators =
            [''blog'', ''content'', ''webinar'', ''podcast'', ''speaking'']
      in if any_in thought_leadership_indicators (lower (str_dict rt (social_media_presence lead)))
         then add 3 ''Content/thought leadership'' ''Active content creation'' st
         else st)"

definition engagement_recency :: "runtime \<Rightarrow> Lead \<Rightarrow> acc \<Rightarrow> error + acc" where
  "engagement_recency rt lead st =
     (case last_enriched lead of
        None \<Rightarrow> Inr st
      | Some t \<Rightarrow>
          (case days_between (now rt) t of
             Inl e \<Rightarrow> Inl e
           | Inr days \<Rightarrow>
               Inr (if days \<le> 30
                    then add 2 ''Recent data update'' ''Data is current'' st
                    else st)))"

definition get_engagement_recommendations :: "Lead \<Rightarrow> real \<Rightarrow> string list" where
  "get_engagement_recommendations lead sc =
     (if sc < 5 then [''Analyze website traffic and social presence''] else [])"

definition score_engagement_signals ::
  "runtime \<Rightarrow> Lead \<Rightarrow> ScoreExplanation list \<Rightarrow> error + real \<times> ScoreExplanation list" where
  "score_engagement_signals rt lead expls =
     (let st = (0, []);
          st = engagement_traffic rt lead st;
          st = engagement_social rt lead st;
          st = engagement_content rt lead st
      in case engagement_recency rt lead st of
           Inl e \<Rightarrow> Inl e
         | Inr st \<Rightarrow>
             Inr (fst st,
                  expls @
                    [\<lparr>category = ENGAGEMENT_SIGNALS, score = fst st, max_score_of = 15,
                      factors = snd st,
                      recommendations = get_engagement_recommendations lead (fst st)\<rparr>]))"

subsection \<open>Timing signals\<close>

definition timing_changes :: "Lead \<Rightarrow> acc \<Rightarrow> acc" where
  "timing_changes lead st =
     (if decision_maker_changes (buying_signals lead)
      then add 6 ''Recent leadership changes'' ''New decision makers'' st
      else st)"

definition timing_expansion :: "runtime \<Rightarrow> Lead \<Rightarrow> acc \<Rightarrow> acc" where
  "timing_expansion rt lead st =
     (if expansion_signals (buying_signals lead) \<noteq> [] then
        (let expansion_count = int (length (expansion_signals (buying_signals lead))) in
         add (of_int (min 4 (expansion_count * 2))) ''Expansion signals''
           (format_int rt [] expansion_count @ '' indicators'') st)
      else st)"

definition timing_funding :: "runtime \<Rightarrow> Lead \<Rightarrow> acc \<Rightarrow> error + acc" where
  "timing_funding rt lead st =
     (case last_funding_date (metrics lead) of
        None \<Rightarrow> Inr st
      | Some d \<Rightarrow>
          (case days_between (now rt) d of
             Inl e \<Rightarrow> Inl e
           | Inr days_since_funding \<Rightarrow>
               Inr (if 30 \<le> days_since_funding \<and> days_since_funding \<le> 180
                    then add 3 ''Post-funding timing'' ''Optimal outreach window'' st
                    else st)))"

definition timing_adoption :: "runtime \<Rightarrow> Lead \<Rightarrow> acc \<Rightarrow> acc" where
  "timing_adoption rt lead st =
     (let modern_adoption_signals = [''migration'', ''upgrade'', ''implementation'', ''new system'']
      in if any_in modern_adoption_signals
              (lower (str_list rt (expansion_signals (buying_signals lead))))
         then add 2 ''Technology adoption'' ''System changes underway'' st
         else st)"

definition get_timing_recommendations :: "Lead \<Rightarrow> real \<Rightarrow> string list" where
  "get_timing_recommendations lead sc =
     (if sc < 5 then [''Look for recent company changes or trigger events''] else [])"

definition score_timing_signals ::
  "runtime \<Rightarrow> Lead \<Rightarrow> ScoreExplanation list \<Rightarrow> error + real \<times> ScoreExplanation list" where
  "score_timing_signals rt lead expls =
     (let st = (0, []);
          st = timing_changes lead st;
          st = timing_expansion rt lead st
      in case timing_funding rt lead st of
           Inl e \<Rightarrow> Inl e
         | Inr st \<Rightarrow>
             (let st = timing_adoption rt lead st
              in Inr (fst st,
                      expls @
                        [\<lparr>category = TIMING_SIGNALS, score = fst st, max_score_of = 15,
                          factors = snd st,
                          recommendations = get_timing_recommendations lead (fst st)\<rparr>])))"

subsection \<open>Buying signals\<close>

definition buying_budget :: "runtime \<Rightarrow> Lead \<Rightarrow> acc \<Rightarrow> acc" where
  "buying_budget rt lead st =
     (if budget_indicators (buying_signals lead) \<noteq> [] then
        (let budget_count = int (length (budget_indicators (buying_signals lead))) in
         add (of_int (min 4 (budget_count * 2))) ''Budget indicators''
           (format_int rt [] budget_count @ '' signals'') st)
      else st)"

definition buying_roles :: "runtime \<Rightarrow> Lead \<Rightarrow> acc \<Rightarrow> acc" where
  "buying_roles rt lead st =
     (if job_postings (buying_signals lead) \<noteq> [] then
        (let relevant_roles = [''marketing'', ''growth'', ''digital'', ''automation'',
                               ''operations'', ''technology''];
             relevant_postings =
               filter (\<lambda>job. any_in relevant_roles (lower job)) (job_postings (buying_signals lead))
         in if relevant_postings \<noteq> []
            then add (of_int (min 4 (int (length relevant_postings) * 2))) ''Relevant hiring''
                   (format_int rt [] (int (length relevant_postings)) @ '' relevant roles'') st
            else st)
      else st)"

definition buying_pain_points :: "Lead \<Rightarrow> acc \<Rightarrow> acc" where
  "buying_pain_points lead st =
     (let pain_point_keywords =
            [''inefficient'', ''manual'', ''time-consuming'', ''outdated'', ''challenge''];
          company_text =
            company_name lead @ '' '' @
            (case industry lead of None \<Rightarrow> ''None'' | Some i \<Rightarrow> i) @ '' '' @
            join '' '' (expansion_signals (buying_signals lead))
      in if any_in pain_point_keywords (lower company_text)
         then add 2 ''Pain point indicators'' ''Efficiency challenges identified'' st
         else st)"

definition get_buying_signal_recommendations :: "Lead \<Rightarrow> real \<Rightarrow> string list" where
  "get_buying_signal_recommendations lead sc =
     (if sc < 3 then [''Search for budget allocation and purchasing signals''] else [])"

definition score_buying_signals ::
  "runtime \<Rightarrow> Lead \<Rightarrow> ScoreExplanation list \<Rightarrow> real \<times> ScoreExplanation list" where
  "score_buying_signals rt lead expls =
     (let st = (0, []);
          st = buying_budget rt lead st;
          st = buying_roles rt lead st;
          st = buying_pain_points lead st
      in (fst st,
          expls @
            [\<lparr>category = BUYING_SIGNALS, score = fst st, max_score_of = 10, factors = snd st,
              recommendations = get_buying_signal_recommendations lead (fst st)\<rparr>]))"

subsection \<open>Rule matcher\<close>

definition opt :: "('a \<Rightarrow> pyval) \<Rightarrow> 'a option \<Rightarrow> pyval" where
  "opt f x = (case x of None \<Rightarrow> VNone | Some v \<Rightarrow> f v)"

definition strs :: "string list \<Rightarrow> pyval" where
  "strs xs = VList (map VStr xs)"

definition ContactInfo_obj :: "ContactInfo \<Rightarrow> pyval" where
  "ContactInfo_obj c =
     VObj ''ContactInfo''
       [(''name'', opt VStr (contact_name c)), (''title'', opt VStr (title c)),
        (''email'', opt VStr (email c)), (''linkedin_url'', opt VStr (linkedin_url c)),
        (''phone'', opt VStr (phone c))]"

definition CompanyMetrics_obj :: "CompanyMetrics \<Rightarrow> pyval" where
  "CompanyMetrics_obj m =
     VObj ''CompanyMetrics''
       [(''employee_count'', opt VInt (employee_count m)),
        (''revenue_range'', opt (\<lambda>r. VStr (revenue_value r)) (revenue_range m)),
        (''growth_rate'', opt VFloat (growth_rate m)),
        (''funding_amount'', opt VFloat (funding_amount m)),
        (''funding_stage'', opt VStr (funding_stage m)),
        (''last_funding_date'', opt VDatetime (last_funding_date m))]"

definition TechnologyStack_obj :: "TechnologyStack \<Rightarrow> pyval" where
  "TechnologyStack_obj t =
     VObj ''TechnologyStack''
       [(''technologies'', strs (technologies t)),
        (''marketing_tools'', strs (marketing_tools t)),
        (''sales_tools'', strs (sales_tools t)),
        (''analytics_tools'', strs (analytics_tools t))]"

definition BuyingSignals_obj :: "BuyingSignals \<Rightarrow> pyval" where
  "BuyingSignals_obj b =
     VObj ''BuyingSignals''
       [(''job_postings'', strs (job_postings b)),
        (''recent_hiring'', opt VInt (recent_hiring b)),
        (''budget_indicators'', strs (budget_indicators b)),
        (''decision_maker_changes'', VBool (decision_maker_changes b)),
        (''expansion_signals'', strs (expansion_signals b))]"

text \<open>
  The lead as the object the dotted lookup walks: the attributes are the fields declared
  in \<open>models/lead.py\<close>.
\<close>

definition Lead_obj :: "Lead \<Rightarrow> pyval" where
  "Lead_obj l =
     VObj ''Lead''
       [(''id'', opt VStr (lead_id l)),
        (''company_name'', VStr (company_name l)),
        (''domain'', VStr (domain l)),
        (''industry'', opt VStr (industry l)),
        (''sub_industry'', opt VStr (sub_industry l)),
        (''contacts'', VList (map ContactInfo_obj (contacts l))),
        (''metrics'', CompanyMetrics_obj (metrics l)),
        (''tech_stack'', TechnologyStack_obj (tech_stack l)),
        (''buying_signals'', BuyingSignals_obj (buying_signals l)),
        (''lead_score'', opt VFloat (lead_score l)),
        (''qualification_status'', opt VStr (lead_qualification_status l)),
        (''score_breakdown'', VDict (map (\<lambda>kv. (fst kv, VFloat (snd kv))) (score_breakdown l))),
        (''data_quality_score'', opt VFloat (data_quality_score l)),
        (''completeness_percentage'', opt VFloat (completeness_percentage l)),
        (''last_enriched'', opt VDatetime (last_enriched l)),
        (''data_sources'', strs (data_sources l)),
        (''competitor_analysis'', VDict (competitor_analysis l)),
        (''outreach_recommendations'', strs (outreach_recommendations l)),
        (''next_actions'', strs (lead_next_actions l)),
        (''headquarters'', opt VStr (headquarters l)),
        (''locations'', strs (locations l)),
        (''website_traffic_rank'', opt VInt (website_traffic_rank l)),
        (''social_media_presence'',
           VDict (map (\<lambda>kv. (fst kv, VStr (snd kv))) (social_media_presence l))),
        (''created_at'', VDatetime (created_at l)),
        (''updated_at'', VDatetime (updated_at l))]"

definition IdealCustomerProfile_obj :: "IdealCustomerProfile \<Rightarrow> pyval" where
  "IdealCustomerProfile_obj p =
     VObj ''IdealCustomerProfile''
       [(''target_industries'', strs (target_industries p)),
        (''company_size_min'', opt VInt (company_size_min p)),
        (''company_size_max'', opt VInt (company_size_max p)),
        (''revenue_min'', opt VFloat (revenue_min p)),
        (''revenue_max'', opt VFloat (revenue_max p)),
        (''target_technologies'', strs (target_technologies p)),
        (''target_roles'', strs (target_roles p)),
        (''geographic_regions'', strs (geographic_regions p)),
        (''funding_stages'', strs (funding_stages p)),
        (''excluded_industries'', strs (excluded_industries p)),
        (''excluded_technologies'', strs (excluded_technologies p))]"

text \<open>\<open>d.get(k)\<close> on a dictionary of \<open>Any\<close>.\<close>

definition dict_get :: "(string \<times> pyval) list \<Rightarrow> string \<Rightarrow> pyval" where
  "dict_get d k = (case map_of d k of None \<Rightarrow> VNone | Some v \<Rightarrow> v)"

text \<open>The loop of \<open>_get_field_value\<close> over the parts of the path, from the object \<open>v\<close>.\<close>

fun getattr_path :: "pyval \<Rightarrow> string list \<Rightarrow> pyval" where
  "getattr_path v [] = v"
| "getattr_path v (part # parts) =
     (case py_getattr v part of
        None \<Rightarrow> VNone
      | Some v' \<Rightarrow> getattr_path v' parts)"

text \<open>
  \<open>_get_field_value\<close>: a field that is not a string has no \<open>split\<close>; the exception is
  caught by the bare \<open>except\<close> and the result is \<open>None\<close>.
\<close>

definition get_field_value :: "pyval \<Rightarrow> pyval \<Rightarrow> pyval" where
  "get_field_value lead field =
     (case field of
        VStr f \<Rightarrow> getattr_path lead (split_on CHR ''.'' f)
      | _ \<Rightarrow> VNone)"

text \<open>\<open>getattr(self.model.icp, value, [])\<close>: the attribute name must be a string.\<close>

definition icp_getattr :: "IdealCustomerProfile \<Rightarrow> pyval \<Rightarrow> error + pyval" where
  "icp_getattr p v =
     (case v of
        VStr n \<Rightarrow>
          Inr (case py_getattr (IdealCustomerProfile_obj p) n of None \<Rightarrow> VList [] | Some t \<Rightarrow> t)
      | _ \<Rightarrow> Inl TypeError)"

definition op_in :: "IdealCustomerProfile \<Rightarrow> pyval \<Rightarrow> pyval \<Rightarrow> error + bool" where
  "op_in p field_value v =
     (case icp_getattr p v of
        Inl e \<Rightarrow> Inl e
      | Inr target_list \<Rightarrow> py_in field_value target_list)"

definition op_contains :: "pyval \<Rightarrow> pyval \<Rightarrow> error + bool" where
  "op_contains field_value v =
     (case field_value of
        VStr s \<Rightarrow> (case v of VStr p \<Rightarrow> Inr (contains_str (lower p) (lower s))
                   | _ \<Rightarrow> Inl AttributeError)
      | _ \<Rightarrow> Inr False)"

definition op_intersects :: "IdealCustomerProfile \<Rightarrow> pyval \<Rightarrow> pyval \<Rightarrow> error + bool" where
  "op_intersects p field_value v =
     (case field_value of
        VList xs \<Rightarrow>
          (case icp_getattr p v of
             Inl e \<Rightarrow> Inl e
           | Inr target_list \<Rightarrow>
               (case py_set (VList xs) of
                  Inl e \<Rightarrow> Inl e
                | Inr a \<Rightarrow>
                    (case py_set target_list of
                       Inl e \<Rightarrow> Inl e
                     | Inr b \<Rightarrow> Inr (list_ex (\<lambda>x. list_ex (py_eq x) b) a))))
      | _ \<Rightarrow> Inr False)"

definition op_within_days :: "runtime \<Rightarrow> pyval \<Rightarrow> pyval \<Rightarrow> error + bool" where
  "op_within_days rt field_value v =
     (case field_value of
        VDatetime t \<Rightarrow>
          (case days_between (now rt) t of
             Inl e \<Rightarrow> Inl e
           | Inr days_diff \<Rightarrow> num_cmp (\<le>) (of_int days_diff) v)
      | _ \<Rightarrow> Inr False)"

definition op_gt :: "pyval \<Rightarrow> pyval \<Rightarrow> error + bool" where
  "op_gt field_value v =
     (case num_of field_value of None \<Rightarrow> Inr False | Some x \<Rightarrow> num_cmp (>) x v)"

definition op_lt :: "pyval \<Rightarrow> pyval \<Rightarrow> error + bool" where
  "op_lt field_value v =
     (case num_of field_value of None \<Rightarrow> Inr False | Some x \<Rightarrow> num_cmp (<) x v)"

definition rule_matches ::
  "LeadScoringEngine \<Rightarrow> runtime \<Rightarrow> pyval \<Rightarrow> ScoringRule \<Rightarrow> error + bool" where
  "rule_matches eng rt lead rule =
     (let field = dict_get (condition rule) ''field'';
          operator = dict_get (condition rule) ''operator'';
          v = dict_get (condition rule) ''value''
      in if \<not> truthy field then Inr False
         else
           (let field_value = get_field_value lead field in
            if field_value = VNone then Inr False
            else if operator = VStr ''eq'' then Inr (py_eq field_value v)
            else if operator = VStr ''gt'' then op_gt field_value v
            else if operator = VStr ''lt'' then op_lt field_value v
            else if operator = VStr ''in'' then op_in (icp (model eng)) field_value v
            else if operator = VStr ''contains'' then op_contains field_value v
            else if operator = VStr ''intersects''
              then op_intersects (icp (model eng)) field_value v
            else if operator = VStr ''within_days'' then op_within_days rt field_value v
            else Inr False))"

text \<open>
  The loop of \<open>_apply_scoring_rules\<close>; the state is \<open>total_adjustment\<close> and the list
  \<open>applied_rules\<close> the caller passed in. An exception of the matcher leaves the loop.
\<close>

fun apply_rules_loop ::
  "LeadScoringEngine \<Rightarrow> runtime \<Rightarrow> pyval \<Rightarrow> ScoringRule list \<Rightarrow> real \<times> string list \<Rightarrow>
   error + real \<times> string list" where
  "apply_rules_loop eng rt lead [] st = Inr st"
| "apply_rules_loop eng rt lead (rule # rules) st =
     (case rule_matches eng rt lead rule of
        Inl e \<Rightarrow> Inl e
      | Inr m \<Rightarrow>
          if m then apply_rules_loop eng rt lead rules
                      (fst st + score_impact rule * weight rule, snd st @ [rule_name rule])
          else apply_rules_loop eng rt lead rules st)"

definition apply_scoring_rules ::
  "LeadScoringEngine \<Rightarrow> runtime \<Rightarrow> Lead \<Rightarrow> string list \<Rightarrow> error + real \<times> string list" where
  "apply_scoring_rules eng rt lead applied =
     apply_rules_loop eng rt (Lead_obj lead) (global_rules (model eng)) (0, applied)"

subsection \<open>Aggregation\<close>

text \<open>\<open>category_scores.get(k, 0)\<close>.\<close>

definition get_score :: "(ScoreCategory \<times> real) list \<Rightarrow> ScoreCategory \<Rightarrow> real" where
  "get_score cs k = (case map_of cs k of None \<Rightarrow> 0 | Some x \<Rightarrow> x)"

definition calculate_weighted_score ::
  "LeadScoringEngine \<Rightarrow> (ScoreCategory \<times> real) list \<Rightarrow> real \<Rightarrow> real" where
  "calculate_weighted_score eng cs rule_adjustments =
     (let w = weights (model eng);
          weighted_sum =
            get_score cs COMPANY_FIT * w_company_fit w +
            get_score cs GROWTH_INDICATORS * w_growth_indicators w +
            get_score cs TECHNOLOGY_FIT * w_technology_fit w +
            get_score cs ENGAGEMENT_SIGNALS * w_engagement_signals w +
            get_score cs TIMING_SIGNALS * w_timing_signals w +
            get_score cs BUYING_SIGNALS * w_buying_signals w
      in weighted_sum + rule_adjustments)"

definition determine_qualification :: "LeadScoringEngine \<Rightarrow> real \<Rightarrow> QualificationStatus" where
  "determine_qualification eng sc =
     (let th = thresholds (model eng) in
      if sc \<ge> hot_threshold th then HOT
      else if sc \<ge> warm_threshold th then WARM
      else if sc \<ge> cold_threshold th then COLD
      else UNQUALIFIED)"

definition calculate_confidence :: "Lead \<Rightarrow> real" where
  "calculate_confidence lead =
     (case (data_quality_score lead, completeness_percentage lead) of
        (Some q, Some c) \<Rightarrow>
          if q \<noteq> 0 \<and> c \<noteq> 0 then (q * 0.6 + c * 0.4) / 100
          else if q \<noteq> 0 then q / 100
          else if c \<noteq> 0 then c / 100
          else 0.5
      | (Some q, None) \<Rightarrow> if q \<noteq> 0 then q / 100 else 0.5
      | (None, Some c) \<Rightarrow> if c \<noteq> 0 then c / 100 else 0.5
      | (None, None) \<Rightarrow> 0.5)"

fun suggestion_for :: "ScoreCategory \<Rightarrow> string" where
  "suggestion_for COMPANY_FIT = ''Verify industry classification and company size''"
| "suggestion_for GROWTH_INDICATORS = ''Research recent funding, hiring, or expansion news''"
| "suggestion_for TECHNOLOGY_FIT = ''Identify current technology stack and tools''"
| "suggestion_for ENGAGEMENT_SIGNALS = ''Analyze web presence and social media activity''"
| "suggestion_for TIMING_SIGNALS = ''Look for trigger events and company changes''"
| "suggestion_for BUYING_SIGNALS = ''Search for job postings and budget indicators''"

definition generate_improvement_suggestions ::
  "Lead \<Rightarrow> (ScoreCategory \<times> real) list \<Rightarrow> string list" where
  "generate_improvement_suggestions lead cs =
     (let weak_categories = map fst (filter (\<lambda>kv. snd kv < 5) cs)
      in map suggestion_for weak_categories)"

fun generate_next_actions :: "Lead \<Rightarrow> QualificationStatus \<Rightarrow> string list" where
  "generate_next_actions lead HOT =
     [''Schedule immediate outreach call'', ''Research key decision makers'',
      ''Prepare personalized demo'']"
| "generate_next_actions lead WARM =
     [''Send personalized email with value proposition'', ''Share relevant case studies'',
      ''Schedule discovery call'']"
| "generate_next_actions lead COLD =
     [''Add to nurture campaign'', ''Share educational content'', ''Monitor for trigger events'']"
| "generate_next_actions lead UNQUALIFIED =
     [''Gather more company information'', ''Reassess fit criteria'',
      ''Consider alternative contact approach'']"

definition suggest_outreach_strategy :: "Lead \<Rightarrow> real \<Rightarrow> string \<times> string" where
  "suggest_outreach_strategy lead sc =
     (let timing = (if sc \<ge> 80 then ''Immediate''
                    else if sc \<ge> 60 then ''Within 48 hours''
                    else if sc \<ge> 40 then ''This week''
                    else ''When additional data available'');
          approach = (if sc \<ge> 80 then ''Direct phone call or personalized video''
                      else if sc \<ge> 60 then ''Personalized email with specific value proposition''
                      else if sc \<ge> 40 then ''Email sequence with educational content''
                      else ''General nurture campaign'')
      in (timing, approach))"

subsection \<open>\<open>score_lead\<close>\<close>

text \<open>
  The data-quality step of \<open>score_lead\<close>: from the weighted total to the pair of the
  total after the penalty and \<open>data_quality_impact\<close>.
\<close>

definition quality_penalty :: "LeadScoringEngine \<Rightarrow> Lead \<Rightarrow> real \<Rightarrow> real \<times> real" where
  "quality_penalty eng lead weighted =
     (case data_quality_score lead of
        None \<Rightarrow> (weighted, 0)
      | Some q \<Rightarrow>
          if apply_data_quality_penalty (model eng) \<and> q \<noteq> 0 then
            (let quality_factor = q / 100;
                 impact = weighted * (1 - quality_factor) * 0.2
             in (max 0 (weighted - impact), impact))
          else (weighted, 0))"

definition score_lead :: "LeadScoringEngine \<Rightarrow> runtime \<Rightarrow> Lead \<Rightarrow> error + LeadScore" where
  "score_lead eng rt lead =
     (let expls = [];
          applied = [];
          (company, expls) = score_company_fit eng rt lead expls
      in case score_growth_indicators rt lead expls of
           Inl e \<Rightarrow> Inl e
         | Inr (growth, expls) \<Rightarrow>
      (let (tech, expls) = score_technology_fit eng lead expls
       in case score_engagement_signals rt lead expls of
            Inl e \<Rightarrow> Inl e
          | Inr (engagement, expls) \<Rightarrow>
      (case score_timing_signals rt lead expls of
         Inl e \<Rightarrow> Inl e
       | Inr (timing, expls) \<Rightarrow>
      (let (buying, expls) = score_buying_signals rt lead expls;
           cs = [(COMPANY_FIT, company), (GROWTH_INDICATORS, growth), (TECHNOLOGY_FIT, tech),
                 (ENGAGEMENT_SIGNALS, engagement), (TIMING_SIGNALS, timing),
                 (BUYING_SIGNALS, buying)]
       in case apply_scoring_rules eng rt lead applied of
            Inl e \<Rightarrow> Inl e
          | Inr (rule_adjustments, applied) \<Rightarrow>
              (let total = calculate_weighted_score eng cs rule_adjustments;
                   (total, impact) = quality_penalty eng lead total;
                   status = determine_qualification eng total;
                   conf = calculate_confidence lead;
                   suggestions = generate_improvement_suggestions lead cs;
                   actions = generate_next_actions lead status;
                   (timing, approach) = suggest_outreach_strategy lead total
               in LeadScore_validate
                    \<lparr>total_score = min 100 (max 0 total),
                     category_scores = cs,
                     explanations = expls,
                     qualification_status = status_value status,
                     confidence = conf,
                     data_quality_impact = impact,
                     applied_rules = applied,
                     improvement_suggestions = suggestions,
                     next_actions = actions,
                     outreach_timing = Some timing,
                     outreach_approach = Some approach\<rparr>)))))"

section \<open>Intent analyzer (services/qualifier.py)\<close>

text \<open>
  A sub-analysis keeps \<open>score\<close> and \<open>signals\<close>; \<open>signal\<close> is
  \<open>score += pts; signals.append(text)\<close>.
\<close>

type_synonym intent_acc = "int \<times> string list"

definition signal :: "int \<Rightarrow> string \<Rightarrow> intent_acc \<Rightarrow> intent_acc" where
  "signal pts text st = (fst st + pts, snd st @ [text])"

definition high_intent_roles :: "string list" where
  "high_intent_roles = [''vp marketing'', ''marketing director'', ''growth lead'', ''head of growth'']"

definition medium_intent_roles :: "string list" where
  "medium_intent_roles = [''marketing manager'', ''digital marketing'', ''marketing analyst'']"

definition decision_maker_roles :: "string list" where
  "decision_maker_roles = [''cmo'', ''ceo'', ''vp'', ''director'', ''head of'']"

definition tech_keywords :: "string list" where
  "tech_keywords = [''automation'', ''analytics'', ''crm'', ''marketing ops'', ''martech'']"

text \<open>The body of the loop over the postings in \<open>_analyze_job_posting_intent\<close>.\<close>

definition job_posting_step :: "string \<Rightarrow> intent_acc \<Rightarrow> intent_acc" where
  "job_posting_step posting st =
     (let posting_lower = lower posting;
          st = (if any_in high_intent_roles posting_lower
                then signal 5 (''Hiring for high-intent role: '' @ posting) st
                else if any_in medium_intent_roles posting_lower
                then signal 3 (''Hiring for relevant role: '' @ posting) st
                else st);
          st = (if any_in decision_maker_roles posting_lower
                then signal 2 (''Hiring decision maker: '' @ posting) st
                else st);
          st = (if any_in tech_keywords posting_lower
                then signal 4 (''Technology-focused role: '' @ posting) st
                else st)
      in st)"

definition analyze_job_posting_intent :: "string list \<Rightarrow> intent_acc" where
  "analyze_job_posting_intent postings =
     (let st = fold job_posting_step postings (0, []) in (min (fst st) 10, snd st))"

definition tech_competitor_step :: "string \<Rightarrow> intent_acc \<Rightarrow> intent_acc" where
  "tech_competitor_step tech st =
     (if List.member [''hubspot'', ''salesforce'', ''marketo'', ''pardot'', ''mailchimp''] (lower tech)
      then signal 3 (''Uses competitor technology: '' @ tech) st
      else st)"

definition tech_outdated_step :: "string \<Rightarrow> intent_acc \<Rightarrow> intent_acc" where
  "tech_outdated_step tech st =
     (if any_in [''legacy'', ''on-premise'', ''excel'', ''manual'', ''spreadsheet''] (lower tech)
      then signal 2 (''Uses outdated technology: '' @ tech) st
      else st)"

definition analyze_technology_intent :: "Lead \<Rightarrow> intent_acc" where
  "analyze_technology_intent lead =
     (let all_tech = technologies (tech_stack lead) @ marketing_tools (tech_stack lead) @
                     sales_tools (tech_stack lead);
          st = fold tech_competitor_step all_tech (0, []);
          st = fold tech_outdated_step all_tech st;
          st = (if length all_tech < 3
                then signal 2 ''Limited technology stack - integration opportunity'' st
                else st)
      in (min (fst st) 8, snd st))"

definition expansion_step :: "string \<Rightarrow> intent_acc \<Rightarrow> intent_acc" where
  "expansion_step sig st =
     (if any_in [''expansion'', ''new market'', ''scaling'', ''growth'', ''international''] (lower sig)
      then signal 2 (''Expansion signal: '' @ sig) st
      else st)"

definition analyze_growth_intent :: "runtime \<Rightarrow> Lead \<Rightarrow> intent_acc" where
  "analyze_growth_intent rt lead =
     (let st = (0, []);
          st = (case recent_hiring (buying_signals lead) of
                  None \<Rightarrow> st
                | Some n \<Rightarrow>
                    if n \<noteq> 0 \<and> n \<ge> 5
                    then signal 3 (''High hiring velocity: '' @ format_int rt [] n @ '' recent hires'') st
                    else st);
          st = fold expansion_step (expansion_signals (buying_signals lead)) st;
          st = (case growth_rate (metrics lead) of
                  None \<Rightarrow> st
                | Some g \<Rightarrow>
                    if g \<noteq> 0 \<and> g \<ge> 25
                    then signal 2 (''High growth rate: '' @ format_float rt [] g @ ''%'') st
                    else st)
      in (min (fst st) 6, snd st))"

definition funding_recency :: "runtime \<Rightarrow> Lead \<Rightarrow> intent_acc \<Rightarrow> error + intent_acc" where
  "funding_recency rt lead st =
     (case last_funding_date (metrics lead) of
        None \<Rightarrow> Inr st
      | Some d \<Rightarrow>
          (case days_between (now rt) d of
             Inl e \<Rightarrow> Inl e
           | Inr days_since_funding \<Rightarrow>
               Inr (if days_since_funding \<le> 90
                    then signal 4 ''Recent funding - budget available'' st
                    else if days_since_funding \<le> 180
                    then signal 2 ''Funding within 6 months'' st
                    else st)))"

definition analyze_funding_intent :: "runtime \<Rightarrow> Lead \<Rightarrow> error + intent_acc" where
  "analyze_funding_intent rt lead =
     (case funding_recency rt lead (0, []) of
        Inl e \<Rightarrow> Inl e
      | Inr st \<Rightarrow>
          (let st = (case funding_amount (metrics lead) of
                       None \<Rightarrow> st
                     | Some a \<Rightarrow>
                         if a \<noteq> 0 \<and> a \<ge> 10000000
                         then signal 2 (''Significant funding: $'' @ format_float rt '',.0f'' a) st
                         else st)
           in Inr (min (fst st) 5, snd st)))"

definition identify_urgency_indicators :: "runtime \<Rightarrow> Lead \<Rightarrow> error + string list" where
  "identify_urgency_indicators rt lead =
     (let urgency_signals =
            (if decision_maker_changes (buying_signals lead)
             then [''Recent leadership changes''] else []) @
            (case recent_hiring (buying_signals lead) of
               None \<Rightarrow> []
             | Some n \<Rightarrow> if n \<noteq> 0 \<and> n \<ge> 10 then [''Rapid scaling/hiring''] else [])
      in case last_funding_date (metrics lead) of
           None \<Rightarrow> Inr urgency_signals
         | Some d \<Rightarrow>
             (case days_between (now rt) d of
                Inl e \<Rightarrow> Inl e
              | Inr days_since \<Rightarrow>
                  Inr (if 30 \<le> days_since \<and> days_since \<le> 90
                       then urgency_signals @ [''Post-funding growth pressure'']
                       else urgency_signals)))"

text \<open>\<open>d[k] = d.get(k, []) + [x]\<close> on a dictionary in insertion order.\<close>

fun dict_append :: "string \<Rightarrow> string \<Rightarrow> (string \<times> string list) list \<Rightarrow> (string \<times> string list) list" where
  "dict_append k x [] = [(k, [x])]"
| "dict_append k x (kv # d) =
     (if fst kv = k then (k, snd kv @ [x]) # d else kv # dict_append k x d)"

definition committee_step ::
  "string \<Rightarrow> (string \<times> string list) list \<Rightarrow> (string \<times> string list) list" where
  "committee_step posting d =
     (let posting_lower = lower posting;
          d = (if any_in [''ceo'', ''cmo'', ''vp marketing'', ''head of growth''] posting_lower
               then dict_append ''decision_makers'' posting d else d);
          d = (if any_in [''marketing manager'', ''operations'', ''analyst''] posting_lower
               then dict_append ''influencers'' posting d else d);
          d = (if any_in [''cto'', ''engineering'', ''it'', ''developer''] posting_lower
               then dict_append ''technical_evaluators'' posting d else d)
      in d)"

definition identify_buying_committee :: "Lead \<Rightarrow> (string \<times> string list) list" where
  "identify_buying_committee lead = fold committee_step (job_postings (buying_signals lead)) []"

record IntentAnalysis =
  intent_score :: int
  intent_level :: string
  intent_signals :: "string list"
  urgency_indicators :: "string list"
  buying_committee_signals :: "(string \<times> string list) list"

definition analyze_intent :: "runtime \<Rightarrow> Lead \<Rightarrow> error + IntentAnalysis" where
  "analyze_intent rt lead =
     (let st = (0, []);
          st = (if job_postings (buying_signals lead) \<noteq> [] then
                  (let job_intent = analyze_job_posting_intent (job_postings (buying_signals lead))
                   in (fst st + fst job_intent, snd st @ snd job_intent))
                else st);
          tech_intent = analyze_technology_intent lead;
          st = (fst st + fst tech_intent, snd st @ snd tech_intent);
          growth_intent = analyze_growth_intent rt lead;
          st = (fst st + fst growth_intent, snd st @ snd growth_intent)
      in case analyze_funding_intent rt lead of
           Inl e \<Rightarrow> Inl e
         | Inr funding_intent \<Rightarrow>
             (let st = (fst st + fst funding_intent, snd st @ snd funding_intent);
                  level = (if fst st \<ge> 15 then ''High''
                           else if fst st \<ge> 8 then ''Medium''
                           else if fst st \<ge> 3 then ''Low''
                           else ''Minimal'')
              in case identify_urgency_indicators rt lead of
                   Inl e \<Rightarrow> Inl e
                 | Inr urgency \<Rightarrow>
                     Inr \<lparr>intent_score = fst st, intent_level = level,
                          intent_signals = snd st,
                          urgency_indicators = urgency,
                          buying_committee_signals = identify_buying_committee lead\<rparr>))"

section \<open>Qualification engine (services/qualifier.py)\<close>

record QualificationWeights =
  qw_lead_score :: real
  qw_intent_score :: real
  qw_data_quality :: real
  qw_timing_score :: real

text \<open>
  The engine holds its scorer and the four weights of the priority blend. (The keyword
  tables of \<open>BuyerIntentAnalyzer.__init__\<close> are never read.)
\<close>

record LeadQualificationEngine =
  scorer :: LeadScoringEngine
  qualification_weights :: QualificationWeights

definition LeadQualificationEngine_init :: LeadQualificationEngine where
  "LeadQualificationEngine_init =
     \<lparr>scorer = LeadScoringEngine_init None,
      qualification_weights =
        \<lparr>qw_lead_score = 0.4, qw_intent_score = 0.3, qw_data_quality = 0.2,
         qw_timing_score = 0.1\<rparr>\<rparr>"

definition funding_window :: "runtime \<Rightarrow> Lead \<Rightarrow> int \<Rightarrow> error + int" where
  "funding_window rt lead t =
     (case last_funding_date (metrics lead) of
        None \<Rightarrow> Inr t
      | Some d \<Rightarrow>
          (case days_between (now rt) d of
             Inl e \<Rightarrow> Inl e
           | Inr days_since \<Rightarrow>
               Inr (if 30 \<le> days_since \<and> days_since \<le> 120 then t + 8
                    else if 120 \<le> days_since \<and> days_since \<le> 180 then t + 5
                    else if days_since \<le> 30 then t + 3
                    else t)))"

definition calculate_timing_score :: "runtime \<Rightarrow> Lead \<Rightarrow> error + int" where
  "calculate_timing_score rt lead =
     (case funding_window rt lead 0 of
        Inl e \<Rightarrow> Inl e
      | Inr t \<Rightarrow>
          (let t = (case recent_hiring (buying_signals lead) of
                      None \<Rightarrow> t
                    | Some n \<Rightarrow>
                        if n = 0 then t
                        else if n \<ge> 5 then t + 6
                        else if n \<ge> 2 then t + 3
                        else t);
               t = (if decision_maker_changes (buying_signals lead) then t + 5 else t);
               current_month = now_month rt;
               t = (if List.member [1, 4, 7, 10] current_month then t + 2 else t)
           in Inr (min t 20)))"

definition determine_final_qualification ::
  "LeadScore \<Rightarrow> IntentAnalysis \<Rightarrow> int \<Rightarrow> Lead \<Rightarrow> error + QualificationStatus" where
  "determine_final_qualification ls ia timing lead =
     (case QualificationStatus_of (qualification_status ls) of
        Inl e \<Rightarrow> Inl e
      | Inr base_qualification \<Rightarrow>
          (let level = intent_level ia in
           if level = ''High'' \<and> base_qualification = WARM then Inr HOT
           else if level = ''High'' \<and> base_qualification = COLD then Inr WARM
           else if level = ''Medium'' \<and> base_qualification = COLD then Inr WARM
           else if timing \<ge> 15 \<and> base_qualification = WARM then Inr HOT
           else
             (case data_quality_score lead of
                None \<Rightarrow> Inr base_qualification
              | Some q \<Rightarrow>
                  if q \<noteq> 0 \<and> q < 40 then
                    (if base_qualification = HOT then Inr WARM
                     else if base_qualification = WARM then Inr COLD
                     else Inr base_qualification)
                  else Inr base_qualification)))"

definition calculate_priority_score ::
  "LeadQualificationEngine \<Rightarrow> real \<Rightarrow> real \<Rightarrow> real \<Rightarrow> real \<Rightarrow> real" where
  "calculate_priority_score q ls intent timing data_quality =
     (let w = qualification_weights q;
          n_lead_score = ls / 100;
          n_intent_score = min (intent / 20) 1;
          n_timing_score = timing / 20;
          n_data_quality = data_quality / 100;
          priority =
            n_lead_score * qw_lead_score w +
            n_intent_score * qw_intent_score w +
            n_data_quality * qw_data_quality w +
            n_timing_score * qw_timing_score w
      in priority * 100)"

record ActionPlan =
  immediate_actions :: "string list"
  follow_up_actions :: "string list"
  timeline :: string
  priority :: string
  assigned_rep_type :: string

fun generate_action_plan :: "Lead \<Rightarrow> QualificationStatus \<Rightarrow> IntentAnalysis \<Rightarrow> ActionPlan" where
  "generate_action_plan lead HOT ia =
     \<lparr>immediate_actions =
        [''Research key decision makers and recent company news'',
         ''Prepare personalized demo focused on identified pain points'',
         ''Schedule outreach within 24 hours''],
      follow_up_actions =
        [''Send follow-up within 48 hours if no response'', ''Engage on social media'',
         ''Research competitive landscape''],
      timeline = ''Immediate'', priority = ''High'', assigned_rep_type = ''Senior AE''\<rparr>"
| "generate_action_plan lead WARM ia =
     \<lparr>immediate_actions =
        [''Send personalized email with relevant case study'',
         ''Research company's current solution and pain points'',
         ''Identify best contact method and timing''],
      follow_up_actions =
        [''Follow up within 3-5 business days'', ''Share educational content'',
         ''Invite to relevant webinar or event''],
      timeline = ''Within 48 hours'', priority = ''Medium-High'', assigned_rep_type = ''AE''\<rparr>"
| "generate_action_plan lead COLD ia =
     \<lparr>immediate_actions =
        [''Add to nurture campaign'', ''Research for trigger events'',
         ''Gather additional company intelligence''],
      follow_up_actions =
        [''Monitor for buying signals'', ''Send educational content monthly'',
         ''Re-evaluate quarterly''],
      timeline = ''This week'', priority = ''Medium'', assigned_rep_type = ''SDR''\<rparr>"
| "generate_action_plan lead UNQUALIFIED ia =
     \<lparr>immediate_actions =
        [''Gather more qualifying information'', ''Verify company fit criteria'',
         ''Research alternative contact approaches''],
      follow_up_actions =
        [''Re-evaluate if additional data becomes available'',
         ''Monitor for significant company changes'',
         ''Consider alternative products/services''],
      timeline = ''When additional data available'', priority = ''Low'',
      assigned_rep_type = ''Marketing''\<rparr>"

text \<open>
  \<open>sorted(items, key=..., reverse=True)\<close>: descending by score, items of equal score in
  their original order.
\<close>

fun insert_desc :: "ScoreCategory \<times> real \<Rightarrow> (ScoreCategory \<times> real) list \<Rightarrow> (ScoreCategory \<times> real) list" where
  "insert_desc x [] = [x]"
| "insert_desc x (y # ys) = (if snd y > snd x then y # insert_desc x ys else x # y # ys)"

definition sorted_desc :: "(ScoreCategory \<times> real) list \<Rightarrow> (ScoreCategory \<times> real) list" where
  "sorted_desc xs = foldr insert_desc xs []"

definition get_qualification_reasons :: "runtime \<Rightarrow> LeadScore \<Rightarrow> IntentAnalysis \<Rightarrow> string list" where
  "get_qualification_reasons rt ls ia =
     (let reasons =
            (if total_score ls \<ge> 80
             then [''High lead score ('' @ format_float rt ''.1f'' (total_score ls) @ ''/100)'']
             else if total_score ls \<ge> 60
             then [''Good lead score ('' @ format_float rt ''.1f'' (total_score ls) @ ''/100)'']
             else []);
          reasons =
            (if intent_level ia = ''High''
             then reasons @ [''High buyer intent detected''] @ take 2 (intent_signals ia)
             else reasons);
          reasons =
            (if urgency_indicators ia \<noteq> []
             then reasons @ [''Urgency indicators present''] @ urgency_indicators ia
             else reasons);
          top_categories = take 2 (sorted_desc (category_scores ls));
          reasons =
            reasons @
            map (\<lambda>kv. ''Strong '' @ replace_char CHR ''_'' CHR '' '' (category_value (fst kv)) @
                       '' signals'')
              (filter (\<lambda>kv. snd kv \<ge> 15) top_categories)
      in take 5 reasons)"

fun calculate_next_review_date :: "runtime \<Rightarrow> QualificationStatus \<Rightarrow> pydatetime" where
  "calculate_next_review_date rt HOT = Naive (now rt + 3 * day)"
| "calculate_next_review_date rt WARM = Naive (now rt + 7 * day)"
| "calculate_next_review_date rt COLD = Naive (now rt + 30 * day)"
| "calculate_next_review_date rt UNQUALIFIED = Naive (now rt + 90 * day)"

definition identify_personalization_hooks :: "Lead \<Rightarrow> string list" where
  "identify_personalization_hooks lead =
     (if last_funding_date (metrics lead) \<noteq> None
      then [''Recent funding round congratulations''] else []) @
     (if truthy_int (recent_hiring (buying_signals lead)) then [''Scaling team reference''] else []) @
     (if truthy_str (industry lead) then [''Industry-specific challenges''] else []) @
     (if truthy_str (headquarters lead) then [''Local market knowledge''] else [])"

definition recommend_content :: "Lead \<Rightarrow> QualificationStatus \<Rightarrow> string list" where
  "recommend_content lead qualification =
     (if qualification = HOT
      then [''ROI calculator'', ''Implementation timeline'', ''Reference customer contact'']
      else if qualification = WARM
      then [''Industry case study'', ''Product demo video'', ''Competitive comparison'']
      else [''Educational whitepaper'', ''Industry report'', ''Best practices guide'']) @
     (case industry lead of
        None \<Rightarrow> []
      | Some i \<Rightarrow> if i \<noteq> [] then [i @ '' industry insights''] else [])"

record OutreachStrategy =
  recommended_channels :: "string list"
  messaging_themes :: "string list"
  value_proposition_focus :: "string list"
  personalization_hooks :: "string list"
  content_recommendations :: "string list"

definition generate_outreach_strategy ::
  "Lead \<Rightarrow> QualificationStatus \<Rightarrow> IntentAnalysis \<Rightarrow> OutreachStrategy" where
  "generate_outreach_strategy lead qualification ia =
     (let themes =
            (if intent_signals ia \<noteq> [] then [''Address identified pain points''] else []) @
            (if technologies (tech_stack lead) \<noteq> []
             then [''Leverage technology compatibility''] else []) @
            (if truthy_float (funding_amount (metrics lead))
             then [''Focus on growth and scaling''] else []);
          channels =
            (if qualification = HOT
             then [''Direct phone call'', ''Personalized video'', ''LinkedIn message'']
             else if qualification = WARM
             then [''Personalized email'', ''LinkedIn connection'', ''Social media engagement'']
             else [''Email sequence'', ''Content sharing'', ''Event invitation'']);
          value_props =
            (if List.member [''High'', ''Medium''] (intent_level ia)
             then [''ROI and efficiency gains''] else []) @
            (if truthy_int (recent_hiring (buying_signals lead))
             then [''Scaling and growth support''] else []) @
            (if list_ex (\<lambda>sig. contains_str ''competitor'' (lower sig)) (intent_signals ia)
             then [''Competitive advantages''] else [])
      in \<lparr>recommended_channels = channels, messaging_themes = themes,
          value_proposition_focus = value_props,
          personalization_hooks = identify_personalization_hooks lead,
          content_recommendations = recommend_content lead qualification\<rparr>)"

record QualificationResult =
  r_lead_score :: LeadScore
  r_intent_analysis :: IntentAnalysis
  r_timing_score :: int
  final_qualification :: QualificationStatus
  priority_score :: real
  action_plan :: ActionPlan
  qualification_reasons :: "string list"
  next_review_date :: pydatetime
  outreach_strategy :: OutreachStrategy

definition qualify_lead ::
  "LeadQualificationEngine \<Rightarrow> runtime \<Rightarrow> Lead \<Rightarrow> error + QualificationResult" where
  "qualify_lead q rt lead =
     (case score_lead (scorer q) rt lead of
        Inl e \<Rightarrow> Inl e
      | Inr ls \<Rightarrow>
          (case analyze_intent rt lead of
             Inl e \<Rightarrow> Inl e
           | Inr ia \<Rightarrow>
               (case calculate_timing_score rt lead of
                  Inl e \<Rightarrow> Inl e
                | Inr timing \<Rightarrow>
                    (case determine_final_qualification ls ia timing lead of
                       Inl e \<Rightarrow> Inl e
                     | Inr final \<Rightarrow>
                         (let plan = generate_action_plan lead final ia;
                              prio = calculate_priority_score q (total_score ls)
                                       (of_int (intent_score ia)) (of_int timing)
                                       (case data_quality_score lead of
                                          None \<Rightarrow> 50
                                        | Some d \<Rightarrow> if d \<noteq> 0 then d else 50)
                          in Inr \<lparr>r_lead_score = ls,
                                  r_intent_analysis = ia,
                                  r_timing_score = timing,
                                  final_qualification = final,
                                  priority_score = prio,
                                  action_plan = plan,
                                  qualification_reasons = get_qualification_reasons rt ls ia,
                                  next_review_date = calculate_next_review_date rt final,
                                  outreach_strategy =
                                    generate_outreach_strategy lead final ia\<rparr>)))))"

section \<open>Example inputs\<close>

text \<open>
  A runtime whose clock reads 1 February 1970, a lead constructed as
  \<open>Lead(company_name=..., domain=...)\<close> with every optional field left out, and an
  engine whose scorer runs one caller-supplied rule instead of the default rules.
\<close>

definition runtime_example :: runtime where
  "runtime_example =
     \<lparr>now = 31 * day, now_month = 2,
      format_int = (\<lambda>spec n. ''<int>''), format_float = (\<lambda>spec x. ''<float>''),
      str_dict = (\<lambda>d. ''{}''), str_list = (\<lambda>xs. ''[]'')\<rparr>"

definition Lead_new :: "runtime \<Rightarrow> string \<Rightarrow> string \<Rightarrow> Lead" where
  "Lead_new rt nm d =
     \<lparr>lead_id = None, company_name = nm, domain = d, industry = None, sub_industry = None,
      contacts = [],
      metrics = \<lparr>employee_count = None, revenue_range = None, growth_rate = None,
                 funding_amount = None, funding_stage = None, last_funding_date = None\<rparr>,
      tech_stack = \<lparr>technologies = [], marketing_tools = [], sales_tools = [],
                    analytics_tools = []\<rparr>,
      buying_signals = \<lparr>job_postings = [], recent_hiring = None, budget_indicators = [],
                        decision_maker_changes = False, expansion_signals = []\<rparr>,
      lead_score = None, lead_qualification_status = None, score_breakdown = [],
      data_quality_score = None, completeness_percentage = None, last_enriched = None,
      data_sources = [], competitor_analysis = [], outreach_recommendations = [],
      lead_next_actions = [], headquarters = None, locations = [],
      website_traffic_rank = None, social_media_presence = [],
      created_at = Naive (now rt), updated_at = Naive (now rt)\<rparr>"

definition named_account_rule :: ScoringRule where
  "named_account_rule =
     \<lparr>rule_name = ''Named account'', rule_category = COMPANY_FIT,
      condition = [(''field'', VStr ''company_name''), (''operator'', VStr ''eq''),
                   (''value'', VStr ''Acme'')],
      score_impact = 80, weight = 1.0, description = None\<rparr>"

definition engine_example :: LeadQualificationEngine where
  "engine_example =
     LeadQualificationEngine_init
       \<lparr>scorer := LeadScoringEngine_init
                    (Some (ScoringModel_default\<lparr>global_rules := [named_account_rule]\<rparr>))\<rparr>"

definition lead_example :: Lead where
  "lead_example =
     (Lead_new runtime_example ''Acme'' ''acme.com'')
       \<lparr>data_quality_score := Some 30,
        metrics := (metrics (Lead_new runtime_example ''Acme'' ''acme.com''))\<lparr>growth_rate := Some 30\<rparr>,
        buying_signals := (buying_signals (Lead_new runtime_example ''Acme'' ''acme.com''))
           \<lparr>job_postings := [''VP Marketing Automation''], recent_hiring := Some 5\<rparr>\<rparr>"

text \<open>
  Weights that pass every field constraint and sum to 6, a lead whose only optional
  field is a revenue range, and a lead whose only optional field is a growth rate.
\<close>

definition weights_all_one :: ScoringWeights where
  "weights_all_one =
     \<lparr>w_company_fit = 1, w_growth_indicators = 1, w_technology_fit = 1,
      w_engagement_signals = 1, w_timing_signals = 1, w_buying_signals = 1\<rparr>"

definition lead_with_revenue :: Lead where
  "lead_with_revenue =
     (Lead_new runtime_example ''Acme'' ''acme.com'')
       \<lparr>metrics := (metrics (Lead_new runtime_example ''Acme'' ''acme.com''))
                     \<lparr>revenue_range := Some SMALL\<rparr>\<rparr>"

definition lead_with_growth :: "real \<Rightarrow> Lead" where
  "lead_with_growth g =
     (Lead_new runtime_example ''Acme'' ''acme.com'')
       \<lparr>metrics := (metrics (Lead_new runtime_example ''Acme'' ''acme.com''))
                     \<lparr>growth_rate := Some g\<rparr>\<rparr>"

text \<open>
  A lead whose only optional field is a timezone-aware funding date, as pydantic builds it
  from \<open>last_funding_date = '1970-01-01T00:00:00Z'\<close>.
\<close>

definition lead_with_aware_funding :: Lead where
  "lead_with_aware_funding =
     (Lead_new runtime_example ''Acme'' ''acme.com'')
       \<lparr>metrics := (metrics (Lead_new runtime_example ''Acme'' ''acme.com''))
                     \<lparr>last_funding_date := Some (Aware 0)\<rparr>\<rparr>"

section \<open>Basic facts about the pipeline\<close>

lemma status_value_roundtrip: "QualificationStatus_of (status_value s) = Inr s"
  by (cases s) (simp_all add: QualificationStatus_of_def)

lemma confidence_unit:
  assumes "Lead_valid lead"
  shows "0 \<le> calculate_confidence lead \<and> calculate_confidence lead \<le> 1"
  using assms
  by (auto simp: Lead_valid_def in_range_def calculate_confidence_def split: option.splits)

lemma score_lead_Inr:
  assumes "score_lead eng rt lead = Inr r"
  shows "\<exists>adj applied.
           apply_scoring_rules eng rt lead [] = Inr (adj, applied) \<and>
           applied_rules r = applied \<and>
           total_score r =
             min 100 (max 0 (fst (quality_penalty eng lead
                                    (calculate_weighted_score eng (category_scores r) adj)))) \<and>
           qualification_status r =
             status_value (determine_qualification eng
               (fst (quality_penalty eng lead
                       (calculate_weighted_score eng (category_scores r) adj)))) \<and>
           data_quality_impact r =
             snd (quality_penalty eng lead (calculate_weighted_score eng (category_scores r) adj))"
  using assms unfolding score_lead_def LeadScore_validate_def
  by (auto simp: Let_def split: prod.splits sum.splits if_splits)

lemma days_between_naive:
  assumes "\<not> aware d"
  shows "days_between n d = Inr ((n - (case d of Naive t \<Rightarrow> t | Aware t \<Rightarrow> t)) div day)"
  using assms by (cases d) (simp_all add: days_between_def)

lemma days_between_aware: "days_between n (Aware t) = Inl TypeError"
  by (simp add: days_between_def)

lemma score_growth_indicators_returns:
  assumes "naive_or_absent (last_funding_date (metrics lead))"
  shows "\<exists>p. score_growth_indicators rt lead expls = Inr p"
  using assms
  by (auto simp: naive_or_absent_def score_growth_indicators_def growth_funding_def
        days_between_naive Let_def split: option.splits)

lemma score_engagement_signals_returns:
  assumes "naive_or_absent (last_enriched lead)"
  shows "\<exists>p. score_engagement_signals rt lead expls = Inr p"
  using assms
  by (auto simp: naive_or_absent_def score_engagement_signals_def engagement_recency_def
        days_between_naive Let_def split: option.splits)

lemma score_timing_signals_returns:
  assumes "naive_or_absent (last_funding_date (metrics lead))"
  shows "\<exists>p. score_timing_signals rt lead expls = Inr p"
  using assms
  by (auto simp: naive_or_absent_def score_timing_signals_def timing_funding_def
        days_between_naive Let_def split: option.splits)

lemma score_lead_returns:
  assumes "apply_scoring_rules eng rt lead [] = Inr (adj, applied)" and "Lead_valid lead"
    and "naive_or_absent (last_funding_date (metrics lead))"
    and "naive_or_absent (last_enriched lead)"
  shows "\<exists>r. score_lead eng rt lead = Inr r"
proof -
  obtain c e0 where c: "score_company_fit eng rt lead [] = (c, e0)"
    by (cases "score_company_fit eng rt lead []")
  obtain g e1 where g: "score_growth_indicators rt lead e0 = Inr (g, e1)"
    using score_growth_indicators_returns [OF assms(3)] by fastforce
  obtain t e2 where t: "score_technology_fit eng lead e1 = (t, e2)"
    by (cases "score_technology_fit eng lead e1")
  obtain n e3 where n: "score_engagement_signals rt lead e2 = Inr (n, e3)"
    using score_engagement_signals_returns [OF assms(4)] by fastforce
  obtain m e4 where m: "score_timing_signals rt lead e3 = Inr (m, e4)"
    using score_timing_signals_returns [OF assms(3)] by fastforce
  show ?thesis
    using assms(1) confidence_unit [OF assms(2)] c g t n m
    unfolding score_lead_def LeadScore_validate_def
    by (auto simp: Let_def split: prod.splits)
qed

lemma score_lead_needs_naive:
  assumes "score_lead eng rt lead = Inr r"
  shows "naive_or_absent (last_funding_date (metrics lead)) \<and> naive_or_absent (last_enriched lead)"
proof -
  have "\<exists>p. score_growth_indicators rt lead e = Inr p" if "e = snd (score_company_fit eng rt lead [])" for e
    using assms that unfolding score_lead_def
    by (auto simp: Let_def split: prod.splits sum.splits)
  then have f: "naive_or_absent (last_funding_date (metrics lead))"
    by (cases "last_funding_date (metrics lead)"; cases "the (last_funding_date (metrics lead))")
       (auto simp: naive_or_absent_def score_growth_indicators_def growth_funding_def
          days_between_def)
  have "\<exists>e p. score_engagement_signals rt lead e = Inr p"
    using assms unfolding score_lead_def
    by (auto simp: Let_def split: prod.splits sum.splits)
  then have "naive_or_absent (last_enriched lead)"
    by (cases "last_enriched lead"; cases "the (last_enriched lead)")
       (auto simp: naive_or_absent_def score_engagement_signals_def engagement_recency_def
          days_between_def Let_def)
  with f show ?thesis by simp
qed

lemma aware_funding_date_raises:
  assumes "last_funding_date (metrics lead) = Some (Aware t)"
  shows "score_lead eng rt lead = Inl TypeError"
  using assms
  by (simp add: score_lead_def score_growth_indicators_def growth_funding_def days_between_aware
        Let_def split: prod.splits)

lemma analyze_intent_returns:
  assumes "naive_or_absent (last_funding_date (metrics lead))"
  shows "\<exists>ia. analyze_intent rt lead = Inr ia"
  using assms
  by (auto simp: naive_or_absent_def analyze_intent_def analyze_funding_intent_def
        funding_recency_def identify_urgency_indicators_def days_between_naive Let_def
        split: option.splits)

lemma calculate_timing_score_returns:
  assumes "naive_or_absent (last_funding_date (metrics lead))"
  shows "\<exists>t. calculate_timing_score rt lead = Inr t"
  using assms
  by (auto simp: naive_or_absent_def calculate_timing_score_def funding_window_def
        days_between_naive Let_def split: option.splits)

lemma rule_matches_unresolved:
  assumes "get_field_value lead (dict_get (condition rule) ''field'') = VNone"
  shows "rule_matches eng rt lead rule = Inr False"
  using assms by (simp add: rule_matches_def Let_def)

lemma rule_matches_unknown_operator:
  assumes "dict_get (condition rule) ''operator'' \<notin>
             set (map VStr [''eq'', ''gt'', ''lt'', ''in'', ''contains'', ''intersects'', ''within_days''])"
  shows "rule_matches eng rt lead rule = Inr False"
  using assms by (simp add: rule_matches_def Let_def)

lemma qualify_lead_Inr:
  assumes "qualify_lead q rt lead = Inr r"
  shows "score_lead (scorer q) rt lead = Inr (r_lead_score r) \<and>
         analyze_intent rt lead = Inr (r_intent_analysis r) \<and>
         calculate_timing_score rt lead = Inr (r_timing_score r) \<and>
         determine_final_qualification (r_lead_score r) (r_intent_analysis r)
           (r_timing_score r) lead = Inr (final_qualification r)"
  using assms unfolding qualify_lead_def
  by (auto simp: Let_def split: sum.splits)

lemma score_lead_status:
  assumes "score_lead eng rt lead = Inr ls"
  shows "\<exists>s. qualification_status ls = status_value s"
  using score_lead_Inr [OF assms] by blast

lemma final_qualification_returns:
  assumes "score_lead eng rt lead = Inr ls"
  shows "\<exists>f. determine_final_qualification ls ia timing lead = Inr f"
proof -
  obtain s where "qualification_status ls = status_value s"
    using score_lead_status [OF assms] by blast
  then show ?thesis
    by (simp add: determine_final_qualification_def status_value_roundtrip Let_def
             split: option.splits)
qed

lemma qualify_lead_returns:
  assumes "score_lead (scorer q) rt lead = Inr ls"
  shows "\<exists>r. qualify_lead q rt lead = Inr r \<and> r_lead_score r = ls \<and>
             analyze_intent rt lead = Inr (r_intent_analysis r) \<and>
             calculate_timing_score rt lead = Inr (r_timing_score r)"
proof -
  have naive: "naive_or_absent (last_funding_date (metrics lead))"
    using score_lead_needs_naive [OF assms] by simp
  obtain ia where ia: "analyze_intent rt lead = Inr ia"
    using analyze_intent_returns [OF naive] by blast
  obtain t where t: "calculate_timing_score rt lead = Inr t"
    using calculate_timing_score_returns [OF naive] by blast
  obtain f where "determine_final_qualification ls ia t lead = Inr f"
    using final_qualification_returns [OF assms] by blast
  then show ?thesis
    using assms ia t by (simp add: qualify_lead_def Let_def)
qed

section \<open>Qualification reconciliation\<close>

text \<open>
  The data-quality rule is reached only when no intent or timing rule has returned, and
  it tests the base tier: a Hot base becomes Warm, a Warm base becomes Cold.
\<close>

lemma quality_rule_on_hot_base:
  assumes "qualification_status ls = ''Hot''"
    and "data_quality_score lead = Some dq" and "dq \<noteq> 0" and "dq < 40"
  shows "determine_final_qualification ls ia timing lead = Inr WARM"
  using assms
  by (simp add: determine_final_qualification_def QualificationStatus_of_def Let_def)

lemma quality_rule_on_warm_base:
  assumes "qualification_status ls = ''Warm''"
    and "intent_level ia \<noteq> ''High''" and "timing < 15"
    and "data_quality_score lead = Some dq" and "dq \<noteq> 0" and "dq < 40"
  shows "determine_final_qualification ls ia timing lead = Inr COLD"
  using assms
  by (simp add: determine_final_qualification_def QualificationStatus_of_def Let_def)

text \<open>
  C1 (as amended). For a lead whose base tier from \<open>score_lead\<close> is Warm and whose
  intent level is High, \<open>qualify_lead\<close> returns and its final qualification is Hot,
  whatever the lead's \<open>data_quality_score\<close> (30 included): the upgrade rule returns at
  once and the data-quality rule is not evaluated for that lead.
\<close>

theorem upgrade_returns_at_once:
  assumes "score_lead (scorer q) rt lead = Inr ls"
    and "qualification_status ls = ''Warm''"
    and "analyze_intent rt lead = Inr ia"
    and "intent_level ia = ''High''"
  shows "\<exists>r. qualify_lead q rt lead = Inr r \<and> final_qualification r = HOT"
proof -
  obtain t where "calculate_timing_score rt lead = Inr t"
    using calculate_timing_score_returns score_lead_needs_naive [OF assms(1)] by blast
  then show ?thesis
    using assms
    by (simp add: qualify_lead_def determine_final_qualification_def QualificationStatus_of_def
          Let_def)
qed

lemma example_scored_warm:
  "(case score_lead (scorer engine_example) runtime_example lead_example of
      Inl e \<Rightarrow> False
    | Inr ls \<Rightarrow> qualification_status ls = ''Warm'')"
  by code_simp

lemma example_intent_high:
  "(case analyze_intent runtime_example lead_example of
      Inl e \<Rightarrow> False
    | Inr ia \<Rightarrow> intent_level ia = ''High'')"
  by code_simp

theorem upgrade_returns_at_once_witness:
  "(\<exists>ls. score_lead (scorer engine_example) runtime_example lead_example = Inr ls \<and>
         qualification_status ls = ''Warm'') \<and>
   (\<exists>ia. analyze_intent runtime_example lead_example = Inr ia \<and>
         intent_level ia = ''High'') \<and>
   (\<exists>r. qualify_lead engine_example runtime_example lead_example = Inr r \<and>
        final_qualification r = HOT)"
proof -
  obtain ls where ls: "score_lead (scorer engine_example) runtime_example lead_example = Inr ls"
    and warm: "qualification_status ls = ''Warm''"
    using example_scored_warm
    by (cases "score_lead (scorer engine_example) runtime_example lead_example") auto
  obtain ia where ia: "analyze_intent runtime_example lead_example = Inr ia"
    and high: "intent_level ia = ''High''"
    using example_intent_high
    by (cases "analyze_intent runtime_example lead_example") auto
  show ?thesis
    using upgrade_returns_at_once [OF ls warm ia high] ls warm ia high
    by blast
qed

text \<open>
  The claim as stated asks for Warm. On the example lead (base tier Warm, intent High,
  \<open>data_quality_score = 30\<close>) the final qualification is Hot.
\<close>

theorem warm_high_intent_poor_data_counterexample:
  "(case qualify_lead engine_example runtime_example lead_example of
      Inl e \<Rightarrow> False
    | Inr r \<Rightarrow>
        qualification_status (r_lead_score r) = ''Warm'' \<and>
        intent_level (r_intent_analysis r) = ''High'' \<and>
        data_quality_score lead_example = Some 30 \<and>
        final_qualification r = HOT \<and>
        final_qualification r \<noteq> WARM)"
  by code_simp

section \<open>Weighted total\<close>

text \<open>
  C6. With the weights of a validly constructed \<open>ScoringWeights\<close> (each in 0..1) and
  the same rule adjustment, raising the score of one category \<open>k\<close> and leaving the other
  five as they are never lowers the weighted total that \<open>_calculate_weighted_score\<close>
  computes before the data-quality penalty.
\<close>

theorem weighted_score_monotone:
  assumes "ScoringWeights_fields_ok (weights (model eng))"
    and "get_score cs k \<le> get_score cs' k"
    and "\<forall>j. j \<noteq> k \<longrightarrow> get_score cs' j = get_score cs j"
  shows "calculate_weighted_score eng cs adj \<le> calculate_weighted_score eng cs' adj"
proof -
  have w: "0 \<le> w_company_fit (weights (model eng))" "0 \<le> w_growth_indicators (weights (model eng))"
    "0 \<le> w_technology_fit (weights (model eng))" "0 \<le> w_engagement_signals (weights (model eng))"
    "0 \<le> w_timing_signals (weights (model eng))" "0 \<le> w_buying_signals (weights (model eng))"
    using assms(1) by (simp_all add: ScoringWeights_fields_ok_def unit_interval_def)
  have le: "get_score cs j \<le> get_score cs' j" for j
    using assms(2,3) by (cases "j = k") auto
  have "get_score cs j * x \<le> get_score cs' j * x" if "0 \<le> x" for j x
    using le that by (rule mult_right_mono)
  then show ?thesis
    using w unfolding calculate_weighted_score_def Let_def
    by (intro add_mono) simp_all
qed

theorem weighted_score_monotone_witness:
  "ScoringWeights_fields_ok (weights (model (LeadScoringEngine_init None))) \<and>
   get_score [(COMPANY_FIT, 10), (BUYING_SIGNALS, 4)] COMPANY_FIT
     \<le> get_score [(COMPANY_FIT, 12), (BUYING_SIGNALS, 4)] COMPANY_FIT \<and>
   calculate_weighted_score (LeadScoringEngine_init None) [(COMPANY_FIT, 10), (BUYING_SIGNALS, 4)] 3
     \<le> calculate_weighted_score (LeadScoringEngine_init None) [(COMPANY_FIT, 12), (BUYING_SIGNALS, 4)] 3"
proof -
  have a: "ScoringWeights_fields_ok (weights (model (LeadScoringEngine_init None)))"
    by (simp add: LeadScoringEngine_init_def ScoringModel_default_def ScoringWeights_default_def
          ScoringWeights_fields_ok_def unit_interval_def Let_def)
  have b: "get_score [(COMPANY_FIT, 10), (BUYING_SIGNALS, 4)] COMPANY_FIT
     \<le> get_score [(COMPANY_FIT, 12), (BUYING_SIGNALS, 4)] COMPANY_FIT"
    by (simp add: get_score_def)
  have c: "\<forall>j. j \<noteq> COMPANY_FIT \<longrightarrow>
             get_score [(COMPANY_FIT, 12), (BUYING_SIGNALS, 4)] j
               = get_score [(COMPANY_FIT, 10), (BUYING_SIGNALS, 4)] j"
    by (simp add: get_score_def)
  show ?thesis
    using weighted_score_monotone [OF a b c, of 3] a b by simp
qed

section \<open>Job-posting intent\<close>

text \<open>
  C8 (as amended). Over all postings the job-posting score is the sum, capped at 10, of
  what each posting contributes: 5 for a high-intent title, otherwise 3 for a
  medium-intent title (the two are exclusive, high-intent first), plus 2 for a
  decision-maker title, plus 4 for a tech-ops keyword (these two add to either).
\<close>

lemma job_posting_step_score:
  "fst (job_posting_step p st) =
     fst st +
     (if any_in high_intent_roles (lower p) then 5
      else if any_in medium_intent_roles (lower p) then 3 else 0) +
     (if any_in decision_maker_roles (lower p) then 2 else 0) +
     (if any_in tech_keywords (lower p) then 4 else 0)"
  by (simp add: job_posting_step_def signal_def Let_def)

lemma fold_job_posting_step_score:
  "fst (fold job_posting_step ps st) =
     fst st +
     sum_list (map (\<lambda>p.
       (if any_in high_intent_roles (lower p) then 5
        else if any_in medium_intent_roles (lower p) then 3 else 0) +
       (if any_in decision_maker_roles (lower p) then 2 else 0) +
       (if any_in tech_keywords (lower p) then 4 else 0)) ps)"
proof (induction ps arbitrary: st)
  case Nil
  then show ?case by simp
next
  case (Cons p ps)
  show ?case
    by (simp only: fold_simps Cons.IH job_posting_step_score list.map sum_list.Cons add.assoc)
qed

theorem job_posting_tiers:
  "fst (analyze_job_posting_intent ps) =
     min (sum_list (map (\<lambda>p.
            (if any_in high_intent_roles (lower p) then 5
             else if any_in medium_intent_roles (lower p) then 3 else 0) +
            (if any_in decision_maker_roles (lower p) then 2 else 0) +
            (if any_in tech_keywords (lower p) then 4 else 0)) ps)) 10"
  by (simp add: analyze_job_posting_intent_def Let_def fold_job_posting_step_score)

text \<open>
  The claim as stated asks for 5 + 3 from a posting that matches a high-intent and a
  medium-intent title. This posting matches both and nothing else, and scores 5.
\<close>

theorem high_and_medium_posting_counterexample:
  "any_in high_intent_roles (lower ''Growth Lead / Marketing Manager'') \<and>
   any_in medium_intent_roles (lower ''Growth Lead / Marketing Manager'') \<and>
   \<not> any_in decision_maker_roles (lower ''Growth Lead / Marketing Manager'') \<and>
   \<not> any_in tech_keywords (lower ''Growth Lead / Marketing Manager'') \<and>
   fst (analyze_job_posting_intent [''Growth Lead / Marketing Manager'']) = 5 \<and>
   fst (analyze_job_posting_intent [''Growth Lead / Marketing Manager'']) \<noteq> 5 + 3"
  by code_simp

section \<open>Base tier\<close>

lemma clamp_ge_iff:
  fixes t h :: real
  assumes "0 < h" and "h \<le> 100"
  shows "min 100 (max 0 t) \<ge> h \<longleftrightarrow> t \<ge> h"
  using assms by auto

text \<open>
  C5. The tier \<open>score_lead\<close> reports is read off the score \<open>t\<close> it has after the
  data-quality step (the returned \<open>total_score\<close> is \<open>t\<close> clamped to 0..100) by
  comparing with the thresholds, highest first, each bound inclusive: Hot from
  \<open>hot_threshold\<close>, else Warm from \<open>warm_threshold\<close>, else Cold from
  \<open>cold_threshold\<close>, else Unqualified. When the three thresholds are positive (and at
  most 100, as the model's field constraints require) the same comparison on the returned
  \<open>total_score\<close> gives the tier. With the default thresholds 80/60/40 a returned
  \<open>total_score\<close> of at least 80 has base tier Hot.
\<close>

theorem base_tier_by_thresholds:
  assumes "score_lead eng rt lead = Inr r"
  shows "(\<exists>t. total_score r = min 100 (max 0 t) \<and>
              qualification_status r =
                status_value
                  (if t \<ge> hot_threshold (thresholds (model eng)) then HOT
                   else if t \<ge> warm_threshold (thresholds (model eng)) then WARM
                   else if t \<ge> cold_threshold (thresholds (model eng)) then COLD
                   else UNQUALIFIED)) \<and>
         (0 < cold_threshold (thresholds (model eng)) \<and>
          cold_threshold (thresholds (model eng)) \<le> 100 \<and>
          0 < warm_threshold (thresholds (model eng)) \<and>
          warm_threshold (thresholds (model eng)) \<le> 100 \<and>
          0 < hot_threshold (thresholds (model eng)) \<and>
          hot_threshold (thresholds (model eng)) \<le> 100 \<longrightarrow>
          qualification_status r =
            status_value
              (if total_score r \<ge> hot_threshold (thresholds (model eng)) then HOT
               else if total_score r \<ge> warm_threshold (thresholds (model eng)) then WARM
               else if total_score r \<ge> cold_threshold (thresholds (model eng)) then COLD
               else UNQUALIFIED)) \<and>
         (thresholds (model eng) = QualificationThresholds_default \<longrightarrow>
          total_score r \<ge> 80 \<longrightarrow> qualification_status r = ''Hot'')"
proof -
  obtain t where t: "total_score r = min 100 (max 0 t)"
    and s: "qualification_status r = status_value (determine_qualification eng t)"
    using score_lead_Inr [OF assms] by blast
  have chain: "determine_qualification eng t =
          (if t \<ge> hot_threshold (thresholds (model eng)) then HOT
           else if t \<ge> warm_threshold (thresholds (model eng)) then WARM
           else if t \<ge> cold_threshold (thresholds (model eng)) then COLD
           else UNQUALIFIED)"
    by (simp add: determine_qualification_def Let_def)
  have first: "\<exists>t. total_score r = min 100 (max 0 t) \<and>
              qualification_status r =
                status_value
                  (if t \<ge> hot_threshold (thresholds (model eng)) then HOT
                   else if t \<ge> warm_threshold (thresholds (model eng)) then WARM
                   else if t \<ge> cold_threshold (thresholds (model eng)) then COLD
                   else UNQUALIFIED)"
    using t s chain by auto
  have second: "qualification_status r =
            status_value
              (if total_score r \<ge> hot_threshold (thresholds (model eng)) then HOT
               else if total_score r \<ge> warm_threshold (thresholds (model eng)) then WARM
               else if total_score r \<ge> cold_threshold (thresholds (model eng)) then COLD
               else UNQUALIFIED)"
    if "0 < cold_threshold (thresholds (model eng))" "cold_threshold (thresholds (model eng)) \<le> 100"
       "0 < warm_threshold (thresholds (model eng))" "warm_threshold (thresholds (model eng)) \<le> 100"
       "0 < hot_threshold (thresholds (model eng))" "hot_threshold (thresholds (model eng)) \<le> 100"
    using s chain t clamp_ge_iff [OF that(1,2), of t] clamp_ge_iff [OF that(3,4), of t]
      clamp_ge_iff [OF that(5,6), of t]
    by simp
  have third: "qualification_status r = ''Hot''"
    if "thresholds (model eng) = QualificationThresholds_default" and "total_score r \<ge> 80"
  proof -
    have "t \<ge> 80" using that(2) t by linarith
    then show ?thesis
      using s that(1)
      by (simp add: determine_qualification_def QualificationThresholds_default_def Let_def)
  qed
  show ?thesis
    using first second third by blast
qed

lemma example_scored_hot:
  "(case score_lead (scorer engine_example) runtime_example
           (lead_example\<lparr>data_quality_score := None\<rparr>) of
      Inl e \<Rightarrow> False
    | Inr r \<Rightarrow> total_score r \<ge> 80)"
  by code_simp

lemma example_thresholds:
  "thresholds (model (scorer engine_example)) = QualificationThresholds_default"
  by (simp add: engine_example_def LeadScoringEngine_init_def ScoringModel_default_def Let_def)

theorem base_tier_by_thresholds_witness:
  "\<exists>r. score_lead (scorer engine_example) runtime_example
          (lead_example\<lparr>data_quality_score := None\<rparr>) = Inr r \<and>
        thresholds (model (scorer engine_example)) = QualificationThresholds_default \<and>
        total_score r \<ge> 80 \<and> qualification_status r = ''Hot''"
proof -
  obtain r where r: "score_lead (scorer engine_example) runtime_example
          (lead_example\<lparr>data_quality_score := None\<rparr>) = Inr r" and h: "total_score r \<ge> 80"
    using example_scored_hot
    by (cases "score_lead (scorer engine_example) runtime_example
          (lead_example\<lparr>data_quality_score := None\<rparr>)") auto
  show ?thesis
    using base_tier_by_thresholds [OF r] r h example_thresholds by blast
qed

section \<open>Priority score\<close>

text \<open>
  C10. For a lead with no \<open>data_quality_score\<close>, whenever the scorer returns a score,
  \<open>qualify_lead\<close> returns and its priority score is
  \<open>(total_score/100 * 0.4 + min(intent_score/20, 1) * 0.3 + 50/100 * 0.2 +
  timing_score/20 * 0.1) * 100\<close>: data quality enters as 50 and contributes a fixed
  10 points.
\<close>

theorem priority_without_data_quality:
  assumes "data_quality_score lead = None"
    and "qualification_weights q = qualification_weights LeadQualificationEngine_init"
    and "score_lead (scorer q) rt lead = Inr ls"
  shows "\<exists>r ia t. qualify_lead q rt lead = Inr r \<and>
             analyze_intent rt lead = Inr ia \<and>
             calculate_timing_score rt lead = Inr t \<and>
             priority_score r =
               (total_score ls / 100 * 0.4 +
                min (of_int (intent_score ia) / 20) 1 * 0.3 +
                50 / 100 * 0.2 +
                of_int t / 20 * 0.1) * 100 \<and>
             priority_score r =
               (total_score ls / 100 * 0.4 +
                min (of_int (intent_score ia) / 20) 1 * 0.3 +
                of_int t / 20 * 0.1) * 100 + 10"
proof -
  have naive: "naive_or_absent (last_funding_date (metrics lead))"
    using score_lead_needs_naive [OF assms(3)] by simp
  obtain ia where ia: "analyze_intent rt lead = Inr ia"
    using analyze_intent_returns [OF naive] by blast
  obtain t where t: "calculate_timing_score rt lead = Inr t"
    using calculate_timing_score_returns [OF naive] by blast
  obtain f where f: "determine_final_qualification ls ia t lead = Inr f"
    using final_qualification_returns [OF assms(3)] by blast
  show ?thesis
    using assms f ia t
    by (simp add: qualify_lead_def calculate_priority_score_def LeadQualificationEngine_init_def
          Let_def algebra_simps)
qed

lemma default_engine_scores_new_lead:
  "(case score_lead (scorer LeadQualificationEngine_init) runtime_example
           (Lead_new runtime_example ''Acme'' ''acme.com'') of
      Inl e \<Rightarrow> False
    | Inr r \<Rightarrow> True)"
  by code_simp

theorem priority_without_data_quality_witness:
  "data_quality_score (Lead_new runtime_example ''Acme'' ''acme.com'') = None \<and>
   (\<exists>ls r ia t. score_lead (scorer LeadQualificationEngine_init) runtime_example
             (Lead_new runtime_example ''Acme'' ''acme.com'') = Inr ls \<and>
           qualify_lead LeadQualificationEngine_init runtime_example
             (Lead_new runtime_example ''Acme'' ''acme.com'') = Inr r \<and>
           analyze_intent runtime_example (Lead_new runtime_example ''Acme'' ''acme.com'') = Inr ia \<and>
           calculate_timing_score runtime_example
             (Lead_new runtime_example ''Acme'' ''acme.com'') = Inr t \<and>
           priority_score r =
             (total_score ls / 100 * 0.4 +
              min (of_int (intent_score ia) / 20) 1 * 0.3 +
              of_int t / 20 * 0.1) * 100 + 10)"
proof -
  have a: "data_quality_score (Lead_new runtime_example ''Acme'' ''acme.com'') = None"
    by (simp add: Lead_new_def)
  obtain ls where ls: "score_lead (scorer LeadQualificationEngine_init) runtime_example
             (Lead_new runtime_example ''Acme'' ''acme.com'') = Inr ls"
    using default_engine_scores_new_lead
    by (cases "score_lead (scorer LeadQualificationEngine_init) runtime_example
             (Lead_new runtime_example ''Acme'' ''acme.com'')") auto
  show ?thesis
    using priority_without_data_quality [OF a refl ls] a ls by blast
qed

section \<open>Weights that do not sum to one\<close>

text \<open>
  C7 (the code at the failing input). Six weights of 1.0 pass the field constraints and
  \<open>validate_weights\<close> rejects them, but constructing the engine never calls
  \<open>validate_weights\<close>: the engine is built with these weights and scores with them
  (5 for the lead with a revenue range, where the default weights give 1.25).
\<close>

theorem unvalidated_weights_are_used:
  "ScoringWeights_fields_ok weights_all_one \<and>
   validate_weights weights_all_one = Inl ValueError \<and>
   weights (model (LeadScoringEngine_init (Some (ScoringModel_default\<lparr>weights := weights_all_one\<rparr>))))
     = weights_all_one \<and>
   (case score_lead (LeadScoringEngine_init (Some (ScoringModel_default\<lparr>weights := weights_all_one\<rparr>)))
           runtime_example lead_with_revenue of
      Inl e \<Rightarrow> False
    | Inr r \<Rightarrow> total_score r = 5) \<and>
   (case score_lead (LeadScoringEngine_init None) runtime_example lead_with_revenue of
      Inl e \<Rightarrow> False
    | Inr r \<Rightarrow> total_score r = 1.25)"
  by code_simp

section \<open>Growth rate of zero\<close>

lemma growth_rate_points_nonzero:
  assumes "growth_rate (metrics lead) = Some g" and "g \<noteq> 0"
  shows "fst (growth_rate_points rt lead st) =
           fst st + (if g \<ge> 50 then 4 else if g \<ge> 25 then 3 else if g \<ge> 10 then 2 else 1)"
  using assms by (simp add: growth_rate_points_def add_def Let_def)

lemma growth_rate_points_zero:
  assumes "growth_rate (metrics lead) = Some 0"
  shows "growth_rate_points rt lead st = st"
  using assms by (simp add: growth_rate_points_def)

text \<open>
  C9 (the code at the failing input). A lead whose \<open>growth_rate\<close> is present and 0.0
  gets no growth-rate point: the test \<open>if lead.metrics.growth_rate:\<close> is false for 0.0,
  so the tiers are not reached. A growth rate of 5 gets the 1 point of the last tier.
\<close>

theorem zero_growth_rate_scores_nothing:
  "Lead_valid (lead_with_growth 0) \<and>
   growth_rate (metrics (lead_with_growth 0)) = Some 0 \<and>
   (case score_growth_indicators runtime_example (lead_with_growth 0) [] of
      Inl e \<Rightarrow> False
    | Inr p \<Rightarrow> fst p = 0) \<and>
   (case score_growth_indicators runtime_example (lead_with_growth 5) [] of
      Inl e \<Rightarrow> False
    | Inr p \<Rightarrow> fst p = 1) \<and>
   (case score_lead (LeadScoringEngine_init None) runtime_example (lead_with_growth 0) of
      Inl e \<Rightarrow> False
    | Inr r \<Rightarrow> map_of (category_scores r) GROWTH_INDICATORS = Some 0)"
  by code_simp

section \<open>Data quality of zero\<close>

text \<open>
  What the data-quality step does for a score that is present and not zero: the penalty
  is \<open>total * (1 - quality/100) * 0.2\<close>, between 0 and 20% of a non-negative total, and
  0 at quality 100.
\<close>

lemma quality_penalty_formula:
  assumes "apply_data_quality_penalty (model eng)"
    and "data_quality_score lead = Some q" and "q \<noteq> 0"
  shows "quality_penalty eng lead t =
           (max 0 (t - t * (1 - q / 100) * 0.2), t * (1 - q / 100) * 0.2)"
  using assms by (simp add: quality_penalty_def Let_def)

lemma quality_penalty_bound:
  assumes "0 \<le> t" and "in_range 0 100 (data_quality_score lead)"
  shows "0 \<le> snd (quality_penalty eng lead t) \<and> snd (quality_penalty eng lead t) \<le> 0.2 * t"
proof (cases "data_quality_score lead")
  case None
  then show ?thesis using assms(1) by (simp add: quality_penalty_def)
next
  case (Some q)
  then have q: "0 \<le> q" "q \<le> 100" using assms(2) by (simp_all add: in_range_def)
  have a: "0 \<le> t * (1 - q / 100)" using assms(1) q by simp
  have "t * (1 - q / 100) \<le> t * 1"
    using assms(1) q by (intro mult_left_mono) simp_all
  then show ?thesis
    using Some assms(1) a by (simp add: quality_penalty_def Let_def)
qed

lemma quality_penalty_full_quality:
  assumes "data_quality_score lead = Some 100"
  shows "quality_penalty eng lead t = (if apply_data_quality_penalty (model eng) then max 0 t else t, 0)"
  using assms by (simp add: quality_penalty_def Let_def)

lemma quality_penalty_zero_quality:
  assumes "data_quality_score lead = Some 0"
  shows "quality_penalty eng lead t = (t, 0)"
  using assms by (simp add: quality_penalty_def)

text \<open>
  C3 (the code at the failing input). With the penalty enabled and a lead whose
  \<open>data_quality_score\<close> is present and 0.0, \<open>score_lead\<close> subtracts nothing: the
  test \<open>lead.data_quality_score\<close> is false for 0.0. The weighted total 1.25 is returned
  with \<open>data_quality_impact = 0\<close>, where the formula gives a penalty of 0.25; at a
  data quality of 1 the penalty is 0.2475.
\<close>

theorem zero_quality_is_not_penalised:
  "Lead_valid (lead_with_revenue\<lparr>data_quality_score := Some 0\<rparr>) \<and>
   apply_data_quality_penalty (model (LeadScoringEngine_init None)) \<and>
   (case score_lead (LeadScoringEngine_init None) runtime_example
           (lead_with_revenue\<lparr>data_quality_score := Some 0\<rparr>) of
      Inl e \<Rightarrow> False
    | Inr r \<Rightarrow> total_score r = 1.25 \<and> data_quality_impact r = 0) \<and>
   (case score_lead (LeadScoringEngine_init None) runtime_example
           (lead_with_revenue\<lparr>data_quality_score := Some 1\<rparr>) of
      Inl e \<Rightarrow> False
    | Inr r \<Rightarrow> total_score r = 1.0025 \<and> data_quality_impact r = 0.2475)"
  by code_simp

section \<open>Returning a result\<close>

text \<open>
  The default rules read five names that are not attributes of a lead, the industry, and
  the technology stack (an object, not a list): none of them can raise.
\<close>

lemma lead_field_industry:
  "get_field_value (Lead_obj lead) (VStr ''industry'') = opt VStr (industry lead)"
  by (simp add: get_field_value_def Lead_obj_def)

lemma lead_field_tech_stack:
  "get_field_value (Lead_obj lead) (VStr ''tech_stack'') = TechnologyStack_obj (tech_stack lead)"
  by (simp add: get_field_value_def Lead_obj_def)

lemma lead_field_missing:
  "get_field_value (Lead_obj lead) (VStr ''employee_count'') = VNone"
  "get_field_value (Lead_obj lead) (VStr ''last_funding_date'') = VNone"
  "get_field_value (Lead_obj lead) (VStr ''hiring_velocity'') = VNone"
  "get_field_value (Lead_obj lead) (VStr ''job_postings'') = VNone"
  "get_field_value (Lead_obj lead) (VStr ''website_traffic_trend'') = VNone"
  by (simp_all add: get_field_value_def Lead_obj_def)

lemma apply_rules_loop_returns:
  assumes "list_all (\<lambda>rule. \<exists>b. rule_matches eng rt lead rule = Inr b) rules"
  shows "\<exists>st'. apply_rules_loop eng rt lead rules st = Inr st'"
  using assms
proof (induction rules arbitrary: st)
  case Nil
  then show ?case by simp
next
  case (Cons rule rules)
  then obtain b where "rule_matches eng rt lead rule = Inr b" by auto
  moreover have "\<exists>st'. apply_rules_loop eng rt lead rules s = Inr st'" for s
    using Cons by simp
  ultimately show ?case by simp
qed

lemma default_rules_match_or_not:
  "list_all (\<lambda>rule. \<exists>b. rule_matches eng rt (Lead_obj lead) rule = Inr b) get_default_rules"
  unfolding get_default_rules_def list.pred_inject
proof (intro conjI TrueI)
  show "\<exists>b. rule_matches eng rt (Lead_obj lead)
         \<lparr>rule_name = ''Target Industry Match'', rule_category = COMPANY_FIT,
          condition = [(''field'', VStr ''industry''), (''operator'', VStr ''in''),
                       (''value'', VStr ''target_industries'')],
          score_impact = 20, weight = 1.0,
          description = Some ''Company is in target industry''\<rparr> = Inr b"
    by (auto simp: rule_matches_def dict_get_def lead_field_industry Let_def
          op_in_def icp_getattr_def IdealCustomerProfile_obj_def strs_def)
qed (auto simp: rule_matches_def dict_get_def lead_field_missing
        lead_field_tech_stack TechnologyStack_obj_def op_intersects_def Let_def)

lemma default_rules_return:
  assumes "global_rules (model eng) = get_default_rules"
  shows "\<exists>adj applied. apply_scoring_rules eng rt lead [] = Inr (adj, applied)"
  using apply_rules_loop_returns [OF default_rules_match_or_not, of eng rt lead "(0, [])"] assms
  by (auto simp: apply_scoring_rules_def)

text \<open>
  For a lead that pydantic accepts and whose timestamps are naive or absent, an engine
  that runs the default rules returns from \<open>score_lead\<close> and \<open>qualify_lead\<close>, with
  \<open>total_score\<close> in 0..100.
\<close>

lemma naive_timestamps_return:
  assumes "Lead_valid lead"
    and "global_rules (model (scorer q)) = get_default_rules"
    and "naive_or_absent (last_funding_date (metrics lead))"
    and "naive_or_absent (last_enriched lead)"
  shows "\<exists>ls r. score_lead (scorer q) rt lead = Inr ls \<and>
                0 \<le> total_score ls \<and> total_score ls \<le> 100 \<and>
                qualify_lead q rt lead = Inr r \<and> r_lead_score r = ls"
proof -
  obtain adj applied where "apply_scoring_rules (scorer q) rt lead [] = Inr (adj, applied)"
    using default_rules_return [OF assms(2)] by blast
  then obtain ls where ls: "score_lead (scorer q) rt lead = Inr ls"
    using score_lead_returns assms(1,3,4) by blast
  have "0 \<le> total_score ls \<and> total_score ls \<le> 100"
    using score_lead_Inr [OF ls] by auto
  moreover obtain r where "qualify_lead q rt lead = Inr r" and "r_lead_score r = ls"
    using qualify_lead_returns [OF ls] by blast
  ultimately show ?thesis
    using ls by blast
qed

lemma score_lead_in_range:
  assumes "score_lead eng rt lead = Inr ls"
  shows "0 \<le> total_score ls \<and> total_score ls \<le> 100"
  using score_lead_Inr [OF assms] by auto

lemma aware_last_enriched_raises:
  assumes "naive_or_absent (last_funding_date (metrics lead))"
    and "last_enriched lead = Some (Aware t)"
  shows "score_lead eng rt lead = Inl TypeError"
proof -
  obtain c e0 where c: "score_company_fit eng rt lead [] = (c, e0)"
    by (cases "score_company_fit eng rt lead []")
  obtain g e1 where g: "score_growth_indicators rt lead e0 = Inr (g, e1)"
    using score_growth_indicators_returns [OF assms(1)] by fastforce
  obtain k e2 where k: "score_technology_fit eng lead e1 = (k, e2)"
    by (cases "score_technology_fit eng lead e1")
  have "score_engagement_signals rt lead e2 = Inl TypeError"
    using assms(2)
    by (simp add: score_engagement_signals_def engagement_recency_def days_between_aware Let_def)
  then show ?thesis
    using c g k by (simp add: score_lead_def Let_def)
qed

text \<open>
  C2 (the code at the failing input). A lead whose \<open>last_funding_date\<close> is a
  timezone-aware datetime is a lead pydantic accepts, with every other optional field
  absent. \<open>_score_growth_indicators\<close> subtracts it from the naive \<open>datetime.now()\<close>, which
  raises \<open>TypeError\<close>: \<open>score_lead\<close> and \<open>qualify_lead\<close> do not return a result.
\<close>

theorem aware_funding_date_is_not_scored:
  "Lead_valid lead_with_aware_funding \<and>
   last_funding_date (metrics lead_with_aware_funding) = Some (Aware 0) \<and>
   score_lead (LeadScoringEngine_init None) runtime_example lead_with_aware_funding
     = Inl TypeError \<and>
   qualify_lead LeadQualificationEngine_init runtime_example lead_with_aware_funding
     = Inl TypeError"
  by code_simp

section \<open>Rules that cannot be evaluated\<close>

lemma apply_rules_loop_skips:
  assumes "rule_matches eng rt lead rule = Inr False"
  shows "apply_rules_loop eng rt lead (before @ rule # rest) st =
         apply_rules_loop eng rt lead (before @ rest) st"
proof (induction before arbitrary: st)
  case Nil
  then show ?case using assms by simp
next
  case (Cons r rs)
  then show ?case by (simp split: sum.splits)
qed

text \<open>
  C4. A rule whose field path does not resolve on the lead (the lookup yields \<open>None\<close>)
  or whose operator is not one of the seven known ones does not match, and the matcher
  returns normally; wherever the rule stands in the rule list, the adjustment and the list
  of applied rules come out as if the rule were not there.
\<close>

theorem unresolvable_rule_does_not_match:
  assumes "get_field_value (Lead_obj lead) (dict_get (condition rule) ''field'') = VNone \<or>
           dict_get (condition rule) ''operator'' \<notin>
             set (map VStr [''eq'', ''gt'', ''lt'', ''in'', ''contains'', ''intersects'',
                            ''within_days''])"
  shows "rule_matches eng rt (Lead_obj lead) rule = Inr False \<and>
         apply_rules_loop eng rt (Lead_obj lead) (before @ rule # rest) st =
           apply_rules_loop eng rt (Lead_obj lead) (before @ rest) st"
proof -
  have "rule_matches eng rt (Lead_obj lead) rule = Inr False"
    using assms rule_matches_unresolved rule_matches_unknown_operator by blast
  then show ?thesis
    using apply_rules_loop_skips by blast
qed

theorem unresolvable_rule_does_not_match_witness:
  "get_field_value (Lead_obj lead_example) (dict_get (condition (get_default_rules ! 1)) ''field'')
     = VNone \<and>
   rule_matches (scorer engine_example) runtime_example (Lead_obj lead_example)
     (get_default_rules ! 1) = Inr False \<and>
   apply_rules_loop (scorer engine_example) runtime_example (Lead_obj lead_example)
     ([named_account_rule] @ (get_default_rules ! 1) # []) (0, []) =
   apply_rules_loop (scorer engine_example) runtime_example (Lead_obj lead_example)
     ([named_account_rule] @ []) (0, [])"
proof -
  have a: "get_field_value (Lead_obj lead_example)
             (dict_get (condition (get_default_rules ! 1)) ''field'') = VNone"
    by (simp add: get_default_rules_def dict_get_def lead_field_missing)
  show ?thesis
    using unresolvable_rule_does_not_match [OF disjI1, OF a] a by blast
qed

end
